theory Spec2Isabelle
  imports Complex_Main
begin

section \<open>Swarm: CSV timeseries to unified packets (src/swarm/app.py)\<close>

text \<open>
  The embedding follows \<^verbatim>\<open>src/swarm/app.py\<close>. Python dictionaries are maps from
  key strings to dynamically typed values, lists are lists, every raise of the source is
  an \<open>Inl\<close> result. The standard library (\<^verbatim>\<open>datetime\<close>, \<^verbatim>\<open>float\<close>,
  \<^verbatim>\<open>json\<close>, \<^verbatim>\<open>requests\<close>) is not part of the repository: \<^verbatim>\<open>datetime\<close> is
  modelled after CPython's implementation, the float operations, the serialiser and the
  network are parameters of the functions that call them.
\<close>

subsection \<open>Python errors\<close>

datatype pyerror =
  IndexError | KeyError | TypeError | ValueError | AttributeError | OverflowError
| UnicodeEncodeError

subsection \<open>The \<^verbatim>\<open>datetime\<close> library\<close>

text \<open>A naive \<^verbatim>\<open>datetime.datetime\<close>: the fields the object stores.\<close>

record datetime =
  year :: nat
  month :: nat
  day :: nat
  hour :: nat
  minute :: nat
  second :: nat
  microsecond :: nat

definition mk_datetime :: "nat \<Rightarrow> nat \<Rightarrow> nat \<Rightarrow> nat \<Rightarrow> nat \<Rightarrow> nat \<Rightarrow> datetime" where
  "mk_datetime y mo d h mi s =
     \<lparr>year = y, month = mo, day = d, hour = h, minute = mi, second = s, microsecond = 0\<rparr>"

definition is_leap :: "nat \<Rightarrow> bool" where
  "is_leap y = (y mod 4 = 0 \<and> (y mod 100 \<noteq> 0 \<or> y mod 400 = 0))"

definition DAYS_IN_MONTH :: "nat list" where
  "DAYS_IN_MONTH = [0, 31, 28, 31, 30, 31, 30, 31, 31, 30, 31, 30, 31]"

definition DAYS_BEFORE_MONTH :: "nat list" where
  "DAYS_BEFORE_MONTH = [0, 0, 31, 59, 90, 120, 151, 181, 212, 243, 273, 304, 334]"

definition days_in_month :: "nat \<Rightarrow> nat \<Rightarrow> nat" where
  "days_in_month y m = (if m = 2 \<and> is_leap y then 29 else DAYS_IN_MONTH ! m)"

definition days_before_year :: "nat \<Rightarrow> nat" where
  "days_before_year y =
     (let p = y - 1 in p * 365 + p div 4 - p div 100 + p div 400)"

definition days_before_month :: "nat \<Rightarrow> nat \<Rightarrow> nat" where
  "days_before_month y m =
     DAYS_BEFORE_MONTH ! m + (if m > 2 \<and> is_leap y then 1 else 0)"

definition ymd2ord :: "nat \<Rightarrow> nat \<Rightarrow> nat \<Rightarrow> nat" where
  "ymd2ord y m d = days_before_year y + days_before_month y m + d"

definition MAXORDINAL :: nat where
  "MAXORDINAL = 3652059"

text \<open>
  \<^verbatim>\<open>_ord2ymd\<close> of the library: the ordinal \<open>n\<close> (1 is 0001-01-01) as year, month
  and day, through the 400, 100, 4 and 1 year cycles.
\<close>

definition ord2ymd :: "nat \<Rightarrow> nat \<times> nat \<times> nat" where
  "ord2ymd n0 =
     (let n = n0 - 1;
          n400 = n div 146097; n = n mod 146097;
          n100 = n div 36524; n = n mod 36524;
          n4 = n div 1461; n = n mod 1461;
          n1 = n div 365; n = n mod 365;
          y = n400 * 400 + 1 + n100 * 100 + n4 * 4 + n1
      in if n1 = 4 \<or> n100 = 4 then (y - 1, 12, 31)
         else
           let leapyear = (n1 = 3 \<and> (n4 \<noteq> 24 \<or> n100 = 3));
               m = (n + 50) div 32;
               preceding = DAYS_BEFORE_MONTH ! m + (if m > 2 \<and> leapyear then 1 else 0)
           in if preceding > n
              then
                let m' = m - 1;
                    preceding' = preceding -
                      (DAYS_IN_MONTH ! m' + (if m' = 2 \<and> leapyear then 1 else 0))
                in (y, m', n - preceding' + 1)
              else (y, m, n - preceding + 1))"

text \<open>
  \<^verbatim>\<open>datetime.timedelta(minutes=m)\<close> is \<open>60 * m\<close> seconds, normalised to days and
  seconds of the day; it raises OverflowError beyond 999999999 days.
\<close>

definition timedelta_minutes :: "int \<Rightarrow> pyerror + (int \<times> int)" where
  "timedelta_minutes m =
     (let secs = 60 * m; d = secs div 86400; s = secs mod 86400
      in if \<bar>d\<bar> > 999999999 then Inl OverflowError else Inr (d, s))"

text \<open>
  \<^verbatim>\<open>datetime.__add__\<close>: the datetime as a timedelta from ordinal 0, plus the
  delta, split back into date and time; OverflowError when the day leaves
  \<open>1..MAXORDINAL\<close>.
\<close>

definition datetime_add :: "datetime \<Rightarrow> int \<times> int \<Rightarrow> pyerror + datetime" where
  "datetime_add dt delta =
     (let secs0 = int (hour dt * 3600 + minute dt * 60 + second dt) + snd delta;
          days = int (ymd2ord (year dt) (month dt) (day dt)) + fst delta + secs0 div 86400;
          secs = nat (secs0 mod 86400);
          h = secs div 3600; rem = secs mod 3600
      in if 0 < days \<and> days \<le> int MAXORDINAL
         then (case ord2ymd (nat days) of (y, m, d) \<Rightarrow>
                 Inr \<lparr>year = y, month = m, day = d, hour = h, minute = rem div 60,
                      second = rem mod 60, microsecond = microsecond dt\<rparr>)
         else Inl OverflowError)"

subsubsection \<open>Decimal digits\<close>

definition digit_char :: "nat \<Rightarrow> char" where
  "digit_char d = ''0123456789'' ! d"

fun dec :: "nat \<Rightarrow> string" where
  "dec n = (if n < 10 then [digit_char n] else dec (n div 10) @ [digit_char (n mod 10)])"

declare dec.simps [simp del]

definition zfill :: "nat \<Rightarrow> string \<Rightarrow> string" where
  "zfill w s = replicate (w - length s) (CHR ''0'') @ s"

subsubsection \<open>\<^verbatim>\<open>strftime\<close>\<close>

text \<open>
  \<^verbatim>\<open>datetime.strftime(format)\<close> for the directives the program uses, as CPython
  renders them through the C library (glibc): \<^verbatim>\<open>%Y\<close> is the year in decimal with no
  padding, so a year below 1000 has fewer than four digits; \<^verbatim>\<open>%m %d %H %M %S\<close> are
  zero-padded to two; \<^verbatim>\<open>%%\<close> is a percent sign; every other character of the format
  is copied. Directives outside this list are not modelled and are copied as they stand.
\<close>

definition directive :: "char \<Rightarrow> datetime \<Rightarrow> string" where
  "directive c dt =
     (if c = CHR ''Y'' then dec (year dt)
      else if c = CHR ''m'' then zfill 2 (dec (month dt))
      else if c = CHR ''d'' then zfill 2 (dec (day dt))
      else if c = CHR ''H'' then zfill 2 (dec (hour dt))
      else if c = CHR ''M'' then zfill 2 (dec (minute dt))
      else if c = CHR ''S'' then zfill 2 (dec (second dt))
      else if c = CHR ''%'' then ''%''
      else [CHR ''%'', c])"

fun strftime :: "datetime \<Rightarrow> string \<Rightarrow> string" where
  "strftime dt [] = []"
| "strftime dt [c] = [c]"
| "strftime dt (c # c' # cs) =
     (if c = CHR ''%'' then directive c' dt @ strftime dt cs
      else c # strftime dt (c' # cs))"

subsubsection \<open>\<^verbatim>\<open>strptime\<close>\<close>

text \<open>
  \<^verbatim>\<open>datetime.strptime(data, format)\<close> turns the format into a regular expression
  and matches it at the start of the data: \<^verbatim>\<open>%Y\<close> is four digits, \<^verbatim>\<open>%m\<close> is
  \<^verbatim>\<open>1[0-2]|0[1-9]|[1-9]\<close>, \<^verbatim>\<open>%d\<close> is \<^verbatim>\<open>3[0-1]|[1-2]\d|0[1-9]|[1-9]| [1-9]\<close>,
  \<^verbatim>\<open>%H\<close> is \<^verbatim>\<open>2[0-3]|[0-1]\d|\d\<close>, \<^verbatim>\<open>%M\<close> is \<^verbatim>\<open>[0-5]\d|\d\<close>, \<^verbatim>\<open>%S\<close> is
  \<^verbatim>\<open>6[0-1]|[0-5]\d|\d\<close>, a run of white space in the format is \<^verbatim>\<open>\s+\<close>. The
  matcher returns the candidates in the order in which a backtracking matcher tries
  them; the first one is the match. Data left over, a date that does not exist and a
  second above 59 raise ValueError. A character is a code point below 256: among them
  the decimal digits are the ASCII digits, and the white space of \<^verbatim>\<open>\s\<close> and of
  \<^verbatim>\<open>str.strip\<close> is 0x09 to 0x0D, 0x1C to 0x1F, the space, 0x85 and 0xA0. Literal
  letters are compared exactly, other directives are rejected.
\<close>

definition digit_val :: "char \<Rightarrow> nat option" where
  "digit_val c = map_of (zip ''0123456789'' [0, 1, 2, 3, 4, 5, 6, 7, 8, 9]) c"

definition is_space :: "char \<Rightarrow> bool" where
  "is_space c =
     (c \<in> set [CHR '' '', CHR 0x09, CHR 0x0A, CHR 0x0B, CHR 0x0C, CHR 0x0D,
                 CHR 0x1C, CHR 0x1D, CHR 0x1E, CHR 0x1F, CHR 0x85, CHR 0xA0])"

definition one_digit :: "string \<Rightarrow> (nat \<times> string) list" where
  "one_digit s =
     (case s of [] \<Rightarrow> []
      | a # r \<Rightarrow> (case digit_val a of None \<Rightarrow> [] | Some x \<Rightarrow> [(x, r)]))"

definition two_digits :: "string \<Rightarrow> (nat \<times> nat \<times> string) list" where
  "two_digits s =
     (case one_digit s of [] \<Rightarrow> []
      | (x, r) # _ \<Rightarrow> (case one_digit r of [] \<Rightarrow> [] | (y, r') # _ \<Rightarrow> [(x, y, r')]))"

definition four_digits :: "string \<Rightarrow> (nat \<times> string) list" where
  "four_digits s =
     (case two_digits s of [] \<Rightarrow> []
      | (a, b, r) # _ \<Rightarrow>
          (case two_digits r of [] \<Rightarrow> []
           | (c, d, r') # _ \<Rightarrow> [(1000 * a + 100 * b + 10 * c + d, r')]))"

definition alts :: "(nat \<Rightarrow> nat \<Rightarrow> bool) \<Rightarrow> (nat \<Rightarrow> bool) \<Rightarrow> string \<Rightarrow> (nat \<times> string) list" where
  "alts P2 P1 s =
     map (\<lambda>(a, b, r). (10 * a + b, r)) (filter (\<lambda>(a, b, r). P2 a b) (two_digits s)) @
     filter (\<lambda>(a, r). P1 a) (one_digit s)"

definition re_directive :: "char \<Rightarrow> string \<Rightarrow> (nat \<times> string) list" where
  "re_directive c s =
     (if c = CHR ''Y'' then four_digits s
      else if c = CHR ''m'' then
        alts (\<lambda>a b. (a = 1 \<and> b \<le> 2) \<or> (a = 0 \<and> 1 \<le> b)) (\<lambda>a. 1 \<le> a) s
      else if c = CHR ''d'' then
        alts (\<lambda>a b. (a = 3 \<and> b \<le> 1) \<or> a = 1 \<or> a = 2 \<or> (a = 0 \<and> 1 \<le> b)) (\<lambda>a. 1 \<le> a) s @
        (case s of [] \<Rightarrow> []
         | x # r \<Rightarrow> if x = CHR '' '' then filter (\<lambda>(a, r'). 1 \<le> a) (one_digit r) else [])
      else if c = CHR ''H'' then alts (\<lambda>a b. (a = 2 \<and> b \<le> 3) \<or> a \<le> 1) (\<lambda>a. True) s
      else if c = CHR ''M'' then alts (\<lambda>a b. a \<le> 5) (\<lambda>a. True) s
      else if c = CHR ''S'' then alts (\<lambda>a b. (a = 6 \<and> b \<le> 1) \<or> a \<le> 5) (\<lambda>a. True) s
      else [])"

datatype fmt_token = Dir char | Lit char | Space

fun tokens :: "bool \<Rightarrow> string \<Rightarrow> fmt_token list" where
  "tokens sp [] = []"
| "tokens sp [c] =
     (if is_space c then (if sp then [] else [Space]) else [Lit c])"
| "tokens sp (c # c' # cs) =
     (if c = CHR ''%'' then Dir c' # tokens False cs
      else if is_space c then (if sp then tokens True (c' # cs) else Space # tokens True (c' # cs))
      else Lit c # tokens False (c' # cs))"

fun match_tokens :: "fmt_token list \<Rightarrow> string \<Rightarrow> ((char \<times> nat) list \<times> string) list" where
  "match_tokens [] s = [([], s)]"
| "match_tokens (Lit c # ts) s =
     (case s of [] \<Rightarrow> [] | x # r \<Rightarrow> if x = c then match_tokens ts r else [])"
| "match_tokens (Space # ts) s =
     concat (map (\<lambda>k. match_tokens ts (drop k s))
                 (rev (map Suc [0 ..< length (takeWhile is_space s)])))"
| "match_tokens (Dir c # ts) s =
     concat (map (\<lambda>(v, r). map (\<lambda>(fs, r'). ((c, v) # fs, r')) (match_tokens ts r))
                 (re_directive c s))"

definition field :: "(char \<times> nat) list \<Rightarrow> char \<Rightarrow> nat \<Rightarrow> nat" where
  "field fs c dflt = (case map_of fs c of None \<Rightarrow> dflt | Some v \<Rightarrow> v)"

definition strptime :: "string \<Rightarrow> string \<Rightarrow> pyerror + datetime" where
  "strptime data_string format =
     (case match_tokens (tokens False format) data_string of
        [] \<Rightarrow> Inl ValueError
      | (fs, rest) # _ \<Rightarrow>
          if rest \<noteq> [] then Inl ValueError
          else
            let y = field fs (CHR ''Y'') 1900; m = field fs (CHR ''m'') 1;
                d = field fs (CHR ''d'') 1; s = field fs (CHR ''S'') 0
            in if 1 \<le> y \<and> 1 \<le> m \<and> m \<le> 12 \<and> 1 \<le> d \<and> d \<le> days_in_month y m \<and> s \<le> 59
               then Inr (mk_datetime y m d (field fs (CHR ''H'') 0) (field fs (CHR ''M'') 0) s)
               else Inl ValueError)"

subsection \<open>Python values and dictionaries\<close>

text \<open>
  The values the program stores in its dictionaries. \<open>'f\<close> is the type of Python
  floats; its operations are parameters. A dictionary is a map from keys to values, and
  \<open>d1 ++ d2\<close> is the display \<^verbatim>\<open>{**d1, **d2}\<close>.
\<close>

datatype 'f pyval =
  PNone
| PFloat 'f
| PStr string
| PDatetime datetime
| PDict "string \<Rightarrow> 'f pyval option"

type_synonym 'f pydict = "string \<Rightarrow> 'f pyval option"

definition bind_err :: "'e + 'a \<Rightarrow> ('a \<Rightarrow> 'e + 'b) \<Rightarrow> 'e + 'b" where
  "bind_err r f = (case r of Inl e \<Rightarrow> Inl e | Inr x \<Rightarrow> f x)"

text \<open>\<^verbatim>\<open>xs[i]\<close> for a literal index: IndexError out of range.\<close>

definition list_get :: "'a list \<Rightarrow> nat \<Rightarrow> pyerror + 'a" where
  "list_get xs i = (if i < length xs then Inr (xs ! i) else Inl IndexError)"

text \<open>\<^verbatim>\<open>d[k]\<close>: KeyError when the key is missing.\<close>

definition getitem :: "'f pydict \<Rightarrow> string \<Rightarrow> pyerror + 'f pyval" where
  "getitem d k = (case d k of None \<Rightarrow> Inl KeyError | Some v \<Rightarrow> Inr v)"

text \<open>
  \<^verbatim>\<open>v * n\<close> for an int \<open>n\<close>: the float product for a float (the parameter
  \<open>float_mul\<close>), repetition for a string, TypeError for None, a datetime and a dict.
\<close>

definition py_mul :: "('f \<Rightarrow> int \<Rightarrow> 'f) \<Rightarrow> 'f pyval \<Rightarrow> int \<Rightarrow> pyerror + 'f pyval" where
  "py_mul float_mul v n =
     (case v of
        PFloat x \<Rightarrow> Inr (PFloat (float_mul x n))
      | PStr s \<Rightarrow> Inr (PStr (concat (replicate (nat n) s)))
      | _ \<Rightarrow> Inl TypeError)"

text \<open>\<^verbatim>\<open>v + delta\<close> for a timedelta: defined for a datetime, TypeError otherwise.\<close>

definition py_add_timedelta :: "'f pyval \<Rightarrow> int \<times> int \<Rightarrow> pyerror + 'f pyval" where
  "py_add_timedelta v delta =
     (case v of
        PDatetime dt \<Rightarrow> bind_err (datetime_add dt delta) (\<lambda>dt'. Inr (PDatetime dt'))
      | _ \<Rightarrow> Inl TypeError)"

text \<open>\<^verbatim>\<open>v.strftime(format)\<close>: only a datetime has the method.\<close>

definition py_strftime :: "'f pyval \<Rightarrow> string \<Rightarrow> pyerror + string" where
  "py_strftime v format =
     (case v of PDatetime dt \<Rightarrow> Inr (strftime dt format) | _ \<Rightarrow> Inl AttributeError)"

text \<open>A list comprehension: the elements in order, the first raise ends it.\<close>

fun map_err :: "('a \<Rightarrow> 'e + 'b) \<Rightarrow> 'a list \<Rightarrow> 'e + 'b list" where
  "map_err f [] = Inr []"
| "map_err f (x # xs) =
     (case f x of Inl e \<Rightarrow> Inl e
      | Inr y \<Rightarrow> (case map_err f xs of Inl e \<Rightarrow> Inl e | Inr ys \<Rightarrow> Inr (y # ys)))"

subsection \<open>TimeserieProcessor\<close>

record 'f TimeserieProcessor =
  timeserie :: "'f pydict list"
  fake_electric :: bool
  minutes_shift :: "int option"

text \<open>The loop of \<^verbatim>\<open>_prepend_padding_value\<close>, appending to \<open>shifted_timeserie\<close>.\<close>

fun shift_loop :: "int \<Rightarrow> 'f pydict list \<Rightarrow> 'f pydict list \<Rightarrow> pyerror + 'f pydict list" where
  "shift_loop minutes [] shifted_timeserie = Inr shifted_timeserie"
| "shift_loop minutes (entry # rest) shifted_timeserie =
     bind_err (getitem entry ''tsISO8601'') (\<lambda>ts.
     bind_err (timedelta_minutes minutes) (\<lambda>delta.
     bind_err (py_add_timedelta ts delta) (\<lambda>shifted_slot_time.
       shift_loop minutes rest
         (shifted_timeserie @ [entry ++ [''tsISO8601'' \<mapsto> shifted_slot_time]]))))"

text \<open>
  \<^verbatim>\<open>_prepend_padding_value\<close>. The padding entry is
  \<^verbatim>\<open>{**timeserie[0], **{'value': timeserie[1]}}\<close>: the key \<^verbatim>\<open>value\<close> receives the
  second entry itself, a dictionary.
\<close>

definition u_prepend_padding_value :: "'f pydict list \<Rightarrow> int \<Rightarrow> pyerror + 'f pydict list" where
  "u_prepend_padding_value ts minutes =
     bind_err (list_get ts 0) (\<lambda>first.
     bind_err (list_get ts 1) (\<lambda>snd_entry.
       let padding_entry = first ++ [''value'' \<mapsto> PDict snd_entry]
       in shift_loop minutes ts [padding_entry]))"

definition electrify_entry :: "('f \<Rightarrow> int \<Rightarrow> 'f) \<Rightarrow> 'f pydict \<Rightarrow> pyerror + 'f pydict" where
  "electrify_entry float_mul entry =
     bind_err (getitem entry ''tsISO8601'') (\<lambda>ts.
     bind_err (getitem entry ''value'') (\<lambda>pC.
     bind_err (getitem entry ''value'') (\<lambda>v.
     bind_err (py_mul float_mul v 6) (\<lambda>aP.
       Inr [''tsISO8601'' \<mapsto> ts, ''pC_1'' \<mapsto> pC, ''aP_1'' \<mapsto> aP]))))"

definition u_electrify :: "('f \<Rightarrow> int \<Rightarrow> 'f) \<Rightarrow> 'f pydict list \<Rightarrow> pyerror + 'f pydict list" where
  "u_electrify float_mul ts = map_err (electrify_entry float_mul) ts"

definition TS_FORMAT :: string where
  "TS_FORMAT = ''%Y-%m-%dT%H:%M:%S.000+00:00''"

text \<open>The loop of \<^verbatim>\<open>_build_unified_packets\<close>, appending to \<open>packets\<close>.\<close>

fun packet_loop :: "string \<Rightarrow> 'f pydict list \<Rightarrow> 'f pydict list \<Rightarrow> pyerror + 'f pydict list" where
  "packet_loop reference [] packets = Inr packets"
| "packet_loop reference (entry # rest) packets =
     bind_err (getitem entry ''tsISO8601'') (\<lambda>ts.
     bind_err (py_strftime ts TS_FORMAT) (\<lambda>rendered.
       let packet = entry ++ [''id'' \<mapsto> PStr reference, ''tsISO8601'' \<mapsto> PStr rendered]
       in packet_loop reference rest (packets @ [packet])))"

definition u_build_unified_packets :: "'f pydict list \<Rightarrow> string \<Rightarrow> pyerror + 'f pydict list" where
  "u_build_unified_packets ts reference = packet_loop reference ts []"

text \<open>The method \<^verbatim>\<open>build_unified_packets\<close>: padding, electrification, packaging.\<close>

definition build_unified_packets ::
  "('f \<Rightarrow> int \<Rightarrow> 'f) \<Rightarrow> 'f TimeserieProcessor \<Rightarrow> string \<Rightarrow> pyerror + 'f pydict list" where
  "build_unified_packets float_mul self reference =
     bind_err (case minutes_shift self of
                 None \<Rightarrow> Inr (timeserie self)
               | Some minutes \<Rightarrow> u_prepend_padding_value (timeserie self) minutes) (\<lambda>ts.
     bind_err (if fake_electric self then u_electrify float_mul ts else Inr ts) (\<lambda>ts'.
       u_build_unified_packets ts' reference))"

subsection \<open>The CSV parsers\<close>

text \<open>
  \<^verbatim>\<open>float(value)\<close> of a string returns a float or raises ValueError: the parameter
  \<open>float_of\<close>, with \<open>None\<close> for the raise. \<^verbatim>\<open>safe_string_to_float\<close> catches it.
\<close>

definition safe_string_to_float :: "(string \<Rightarrow> 'f option) \<Rightarrow> string \<Rightarrow> 'f pyval" where
  "safe_string_to_float float_of v =
     (case float_of v of Some x \<Rightarrow> PFloat x | None \<Rightarrow> PNone)"

definition CSV_FORMAT :: string where
  "CSV_FORMAT = ''%Y-%m-%d %H:%M:%S''"

text \<open>
  Both parsers take the rows that \<^verbatim>\<open>csv.reader\<close> yields for the file, each a list
  of column strings. \<^verbatim>\<open>timestamp, value = row\<close> raises ValueError unless the row has
  two columns.
\<close>

fun single_value_loop ::
  "(string \<Rightarrow> 'f option) \<Rightarrow> string list list \<Rightarrow> 'f pydict list \<Rightarrow> pyerror + 'f pydict list" where
  "single_value_loop float_of [] ts = Inr ts"
| "single_value_loop float_of (row # rest) ts =
     (case row of
        [timestamp, v] \<Rightarrow>
          bind_err (strptime timestamp CSV_FORMAT) (\<lambda>packet_datetime.
            single_value_loop float_of rest
              (ts @ [[''tsISO8601'' \<mapsto> PDatetime packet_datetime,
                      ''value'' \<mapsto> safe_string_to_float float_of v]]))
      | _ \<Rightarrow> Inl ValueError)"

definition parse_single_value_csv ::
  "(string \<Rightarrow> 'f option) \<Rightarrow> string list list \<Rightarrow> pyerror + 'f pydict list" where
  "parse_single_value_csv float_of rows = single_value_loop float_of rows []"

definition ELECTRICITY_KEYS :: "string list" where
  "ELECTRICITY_KEYS =
     [''aP_1'', ''aP_2'', ''aP_3'', ''rP_1'', ''rP_2'', ''rP_3'',
      ''apP_1'', ''apP_2'', ''apP_3'', ''v_1'', ''v_2'', ''v_3'',
      ''c_1'', ''c_2'', ''c_3'', ''pC_1'', ''pC_2'', ''pC_3'',
      ''v_12'', ''v_13'', ''v_23'']"

text \<open>
  \<^verbatim>\<open>timestamp, *values = row\<close> raises ValueError for an empty row only.
  \<^verbatim>\<open>dict(zip(keys, values))\<close> stops at the shorter list; later pairs win, which is
  \<open>Map.empty(keys [\<mapsto>] values)\<close>. The debug log of the values has no effect on the result.
\<close>

fun electricity_loop ::
  "(string \<Rightarrow> 'f option) \<Rightarrow> string list list \<Rightarrow> 'f pydict list \<Rightarrow> pyerror + 'f pydict list" where
  "electricity_loop float_of [] ts = Inr ts"
| "electricity_loop float_of (row # rest) ts =
     (case row of
        [] \<Rightarrow> Inl ValueError
      | timestamp # vals \<Rightarrow>
          let vals' = map (safe_string_to_float float_of) vals
          in bind_err (strptime timestamp CSV_FORMAT) (\<lambda>packet_datetime.
               electricity_loop float_of rest
                 (ts @ [Map.empty((''tsISO8601'' # ELECTRICITY_KEYS)
                                   [\<mapsto>] (PDatetime packet_datetime # vals'))])))"

definition parse_electricity_csv ::
  "(string \<Rightarrow> 'f option) \<Rightarrow> string list list \<Rightarrow> pyerror + 'f pydict list" where
  "parse_electricity_csv float_of rows = electricity_loop float_of rows []"

subsection \<open>The uploader\<close>

datatype level = DEBUG | INFO | WARNING | ERROR | CRITICAL

text \<open>
  What \<^verbatim>\<open>session.post\<close> does: it returns a response (status code and text), raises
  a \<^verbatim>\<open>RequestException\<close>, or raises an exception of another class (a
  UnicodeEncodeError for a password outside Latin-1, for one).
\<close>

datatype post_result =
  Response int string
| RequestException string
| OtherException pyerror

text \<open>
  What \<^verbatim>\<open>send\<close> does to the outside, in order: the calls of \<^verbatim>\<open>session.post\<close>
  with their payloads, and the log records.
\<close>

datatype 'p event =
  Post string
| Log level string
| LogResponse level int 'p string
| LogException level string

definition strip :: "string \<Rightarrow> string" where
  "strip s = rev (dropWhile is_space (rev (dropWhile is_space s)))"

text \<open>
  The loop of \<^verbatim>\<open>send\<close>. \<open>dumps\<close> is \<^verbatim>\<open>json.dumps\<close>, called outside the
  \<^verbatim>\<open>try\<close>: what it raises ends the loop. \<open>net k payload\<close> is the outcome of the
  \<open>k\<close>-th POST; only a \<^verbatim>\<open>RequestException\<close> is caught, another exception ends
  the loop. The status class is \<^verbatim>\<open>response.status_code / 100\<close>, Python 3's true division: the quotient of
  two ints as a float, which equals 2 (or 3) only when the exact quotient does, every
  other int being at least 0.01 away.
\<close>

fun send_loop ::
  "('p \<Rightarrow> pyerror + string) \<Rightarrow> (nat \<Rightarrow> string \<Rightarrow> post_result) \<Rightarrow> nat \<Rightarrow> 'p list \<Rightarrow>
   'p event list \<times> (pyerror + unit)" where
  "send_loop dumps net k [] = ([], Inr ())"
| "send_loop dumps net k (unified_json # rest) =
     (case dumps unified_json of
        Inl e \<Rightarrow> ([], Inl e)
      | Inr payload \<Rightarrow>
          (case net k payload of
             Response status_code text \<Rightarrow>
               let status_code_class = real_of_int status_code / 100;
                   response_message = strip text;
                   logged =
                     (if status_code_class = 2
                      then LogResponse DEBUG status_code unified_json response_message
                      else if status_code_class = 3
                      then LogResponse WARNING status_code unified_json response_message
                      else LogResponse ERROR status_code unified_json response_message);
                   (evs, r) = send_loop dumps net (Suc k) rest
               in (Post payload # logged # evs, r)
           | RequestException exception \<Rightarrow>
               let (evs, r) = send_loop dumps net (Suc k) rest
               in (Post payload # LogException CRITICAL exception # evs, r)
           | OtherException e \<Rightarrow> ([Post payload], Inl e)))"

definition send ::
  "('p \<Rightarrow> pyerror + string) \<Rightarrow> (nat \<Rightarrow> string \<Rightarrow> post_result) \<Rightarrow> 'p list \<Rightarrow>
   'p event list \<times> (pyerror + unit)" where
  "send dumps net unified_jsons =
     (case send_loop dumps net 0 unified_jsons of
        (evs, Inr u) \<Rightarrow> (Log INFO ''Starting the swarm'' # evs @ [Log INFO ''Completed''], Inr u)
      | (evs, Inl e) \<Rightarrow> (Log INFO ''Starting the swarm'' # evs, Inl e))"

subsection \<open>The transformer on an explicit store\<close>

text \<open>
  Python dictionaries and lists are mutable objects reached through references, and the
  entries of a timeserie are shared between the lists that hold them. The store is the
  list of the objects allocated so far, an address is an index into it, allocation
  appends. Floats, strings, datetimes and None are immutable and stored as values. A
  program takes the store and returns a result or an error together with the new store.
\<close>

datatype 'f hval = HNone | HFloat 'f | HStr string | HDatetime datetime | HRef nat

datatype 'f hobj = ODict "string \<Rightarrow> 'f hval option" | OList "'f hval list"

type_synonym 'f heap = "'f hobj list"

type_synonym ('f, 'a) prog = "'f heap \<Rightarrow> (pyerror + 'a) \<times> 'f heap"

definition ret :: "'a \<Rightarrow> ('f, 'a) prog" where
  "ret x h = (Inr x, h)"

definition throw :: "pyerror \<Rightarrow> ('f, 'a) prog" where
  "throw e h = (Inl e, h)"

definition lift :: "pyerror + 'a \<Rightarrow> ('f, 'a) prog" where
  "lift r h = (r, h)"

definition bind_st :: "('f, 'a) prog \<Rightarrow> ('a \<Rightarrow> ('f, 'b) prog) \<Rightarrow> ('f, 'b) prog" where
  "bind_st m f h = (case m h of (Inl e, h') \<Rightarrow> (Inl e, h') | (Inr x, h') \<Rightarrow> f x h')"

definition alloc :: "'f hobj \<Rightarrow> ('f, 'f hval) prog" where
  "alloc ob h = (Inr (HRef (length h)), h @ [ob])"

definition load :: "'f hval \<Rightarrow> ('f, 'f hobj) prog" where
  "load v h =
     (case v of
        HRef a \<Rightarrow> if a < length h then (Inr (h ! a), h) else (Inl TypeError, h)
      | _ \<Rightarrow> (Inl TypeError, h))"

text \<open>The items of a list object; iterating or indexing anything else is a TypeError.\<close>

definition load_list :: "'f hval \<Rightarrow> ('f, 'f hval list) prog" where
  "load_list v =
     bind_st (load v) (\<lambda>ob. case ob of OList xs \<Rightarrow> ret xs | ODict d \<Rightarrow> throw TypeError)"

text \<open>The content of a dictionary object, for \<^verbatim>\<open>**v\<close>: TypeError unless a mapping.\<close>

definition load_dict :: "'f hval \<Rightarrow> ('f, string \<Rightarrow> 'f hval option) prog" where
  "load_dict v =
     bind_st (load v) (\<lambda>ob. case ob of ODict d \<Rightarrow> ret d | OList xs \<Rightarrow> throw TypeError)"

text \<open>\<^verbatim>\<open>v[k]\<close> for a string key: KeyError on a dictionary without it.\<close>

definition subscript :: "'f hval \<Rightarrow> string \<Rightarrow> ('f, 'f hval) prog" where
  "subscript v k =
     bind_st (load_dict v) (\<lambda>d. case d k of None \<Rightarrow> throw KeyError | Some x \<Rightarrow> ret x)"

text \<open>\<^verbatim>\<open>l.append(x)\<close>: the list object at the address of \<open>l\<close> is overwritten.\<close>

definition list_append :: "'f hval \<Rightarrow> 'f hval \<Rightarrow> ('f, unit) prog" where
  "list_append l x =
     bind_st (load_list l) (\<lambda>xs h.
       case l of HRef a \<Rightarrow> (Inr (), h[a := OList (xs @ [x])]) | _ \<Rightarrow> (Inl AttributeError, h))"

text \<open>The in-place update of a dictionary object with the pairs of \<open>d'\<close>.\<close>

definition dict_update :: "'f hval \<Rightarrow> (string \<Rightarrow> 'f hval option) \<Rightarrow> ('f, unit) prog" where
  "dict_update v d' =
     bind_st (load_dict v) (\<lambda>d h.
       case v of HRef a \<Rightarrow> (Inr (), h[a := ODict (d ++ d')]) | _ \<Rightarrow> (Inl AttributeError, h))"

text \<open>
  The display \<^verbatim>\<open>{**x, **{...}}\<close>: a new dictionary with the pairs of \<open>x\<close>, then the
  inner display is evaluated and allocated, then the new dictionary is updated with it.
\<close>

definition dict_display ::
  "'f hval \<Rightarrow> ('f, string \<Rightarrow> 'f hval option) prog \<Rightarrow> ('f, 'f hval) prog" where
  "dict_display x inner =
     bind_st (load_dict x) (\<lambda>d.
     bind_st (alloc (ODict d)) (\<lambda>new.
     bind_st inner (\<lambda>d'.
     bind_st (alloc (ODict d')) (\<lambda>tmp.
     bind_st (dict_update new d') (\<lambda>_. ret new)))))"

definition hval_add_timedelta :: "'f hval \<Rightarrow> int \<times> int \<Rightarrow> pyerror + 'f hval" where
  "hval_add_timedelta v delta =
     (case v of
        HDatetime dt \<Rightarrow> bind_err (datetime_add dt delta) (\<lambda>dt'. Inr (HDatetime dt'))
      | _ \<Rightarrow> Inl TypeError)"

definition hval_strftime :: "'f hval \<Rightarrow> string \<Rightarrow> pyerror + string" where
  "hval_strftime v format =
     (case v of HDatetime dt \<Rightarrow> Inr (strftime dt format) | _ \<Rightarrow> Inl AttributeError)"

text \<open>\<^verbatim>\<open>v * n\<close>; the product of a list is a new list object.\<close>

definition hval_mul :: "('f \<Rightarrow> int \<Rightarrow> 'f) \<Rightarrow> 'f hval \<Rightarrow> int \<Rightarrow> ('f, 'f hval) prog" where
  "hval_mul float_mul v n =
     (case v of
        HFloat x \<Rightarrow> ret (HFloat (float_mul x n))
      | HStr s \<Rightarrow> ret (HStr (concat (replicate (nat n) s)))
      | HRef a \<Rightarrow> bind_st (load_list v) (\<lambda>xs. alloc (OList (concat (replicate (nat n) xs))))
      | _ \<Rightarrow> throw TypeError)"

record 'f TimeserieProcessor_st =
  st_timeserie :: "'f hval"
  st_fake_electric :: bool
  st_minutes_shift :: "int option"

text \<open>
  The loops run over the items the iterated list has when the loop starts; their bodies
  write to the lists and dictionaries they allocated themselves.
\<close>

fun shift_loop_st :: "int \<Rightarrow> 'f hval list \<Rightarrow> 'f hval \<Rightarrow> ('f, unit) prog" where
  "shift_loop_st minutes [] shifted_timeserie = ret ()"
| "shift_loop_st minutes (entry # rest) shifted_timeserie =
     bind_st (subscript entry ''tsISO8601'') (\<lambda>ts.
     bind_st (lift (timedelta_minutes minutes)) (\<lambda>delta.
     bind_st (lift (hval_add_timedelta ts delta)) (\<lambda>shifted_slot_time.
     bind_st (dict_display entry (ret [''tsISO8601'' \<mapsto> shifted_slot_time])) (\<lambda>new.
     bind_st (list_append shifted_timeserie new) (\<lambda>_.
       shift_loop_st minutes rest shifted_timeserie)))))"

definition u_prepend_padding_value_st :: "'f hval \<Rightarrow> int \<Rightarrow> ('f, 'f hval) prog" where
  "u_prepend_padding_value_st ts minutes =
     bind_st (load_list ts) (\<lambda>xs.
     bind_st (lift (list_get xs 0)) (\<lambda>first.
     bind_st (dict_display first
                (bind_st (lift (list_get xs 1)) (\<lambda>snd_entry. ret [''value'' \<mapsto> snd_entry])))
       (\<lambda>padding_entry.
     bind_st (alloc (OList [padding_entry])) (\<lambda>shifted_timeserie.
     bind_st (shift_loop_st minutes xs shifted_timeserie) (\<lambda>_. ret shifted_timeserie)))))"

fun electrify_loop_st ::
  "('f \<Rightarrow> int \<Rightarrow> 'f) \<Rightarrow> 'f hval list \<Rightarrow> 'f hval \<Rightarrow> ('f, unit) prog" where
  "electrify_loop_st float_mul [] out = ret ()"
| "electrify_loop_st float_mul (entry # rest) out =
     bind_st (subscript entry ''tsISO8601'') (\<lambda>ts.
     bind_st (subscript entry ''value'') (\<lambda>pC.
     bind_st (subscript entry ''value'') (\<lambda>v.
     bind_st (hval_mul float_mul v 6) (\<lambda>aP.
     bind_st (alloc (ODict [''tsISO8601'' \<mapsto> ts, ''pC_1'' \<mapsto> pC, ''aP_1'' \<mapsto> aP])) (\<lambda>new.
     bind_st (list_append out new) (\<lambda>_.
       electrify_loop_st float_mul rest out))))))"

definition u_electrify_st :: "('f \<Rightarrow> int \<Rightarrow> 'f) \<Rightarrow> 'f hval \<Rightarrow> ('f, 'f hval) prog" where
  "u_electrify_st float_mul ts =
     bind_st (load_list ts) (\<lambda>xs.
     bind_st (alloc (OList [])) (\<lambda>out.
     bind_st (electrify_loop_st float_mul xs out) (\<lambda>_. ret out)))"

fun packet_loop_st :: "string \<Rightarrow> 'f hval list \<Rightarrow> 'f hval \<Rightarrow> ('f, unit) prog" where
  "packet_loop_st reference [] packets = ret ()"
| "packet_loop_st reference (entry # rest) packets =
     bind_st (dict_display entry
                (bind_st (subscript entry ''tsISO8601'') (\<lambda>ts.
                 bind_st (lift (hval_strftime ts TS_FORMAT)) (\<lambda>rendered.
                   ret [''id'' \<mapsto> HStr reference, ''tsISO8601'' \<mapsto> HStr rendered]))))
       (\<lambda>packet.
     bind_st (list_append packets packet) (\<lambda>_.
       packet_loop_st reference rest packets))"

definition u_build_unified_packets_st :: "'f hval \<Rightarrow> string \<Rightarrow> ('f, 'f hval) prog" where
  "u_build_unified_packets_st ts reference =
     bind_st (alloc (OList [])) (\<lambda>packets.
     bind_st (load_list ts) (\<lambda>xs.
     bind_st (packet_loop_st reference xs packets) (\<lambda>_. ret packets)))"

definition build_unified_packets_st ::
  "('f \<Rightarrow> int \<Rightarrow> 'f) \<Rightarrow> 'f TimeserieProcessor_st \<Rightarrow> string \<Rightarrow> ('f, 'f hval) prog" where
  "build_unified_packets_st float_mul self reference =
     bind_st (case st_minutes_shift self of
                None \<Rightarrow> ret (st_timeserie self)
              | Some minutes \<Rightarrow> u_prepend_padding_value_st (st_timeserie self) minutes) (\<lambda>ts.
     bind_st (if st_fake_electric self then u_electrify_st float_mul ts else ret ts) (\<lambda>ts'.
       u_build_unified_packets_st ts' reference))"

subsection \<open>Auxiliary definitions\<close>

text \<open>
  Notions that the statements and proofs below use. They describe results; none of them
  is part of the program.
\<close>

text \<open>The dictionary that \<^verbatim>\<open>_electrify\<close> builds from an entry with a float value.\<close>

definition electrified :: "('f \<Rightarrow> int \<Rightarrow> 'f) \<Rightarrow> 'f pydict \<Rightarrow> 'f pydict" where
  "electrified float_mul e =
     (case (e ''tsISO8601'', e ''value'') of
        (Some t, Some (PFloat x)) \<Rightarrow>
          [''tsISO8601'' \<mapsto> t, ''pC_1'' \<mapsto> PFloat x, ''aP_1'' \<mapsto> PFloat (float_mul x 6)]
      | _ \<Rightarrow> Map.empty)"

text \<open>The packet that \<^verbatim>\<open>_build_unified_packets\<close> builds from an entry with a datetime.\<close>

definition packaged :: "string \<Rightarrow> 'f pydict \<Rightarrow> 'f pydict" where
  "packaged reference e =
     e ++ [''id'' \<mapsto> PStr reference,
           ''tsISO8601'' \<mapsto>
             PStr (case e ''tsISO8601'' of Some (PDatetime d) \<Rightarrow> strftime d TS_FORMAT | _ \<Rightarrow> [])]"

text \<open>
  The rows the electricity parser accepts: at least the timestamp column, and a
  timestamp that \<open>strptime\<close> parses. The record it builds from such a row.
\<close>

definition row_ok :: "string list \<Rightarrow> bool" where
  "row_ok row = (case row of [] \<Rightarrow> False | timestamp # vals \<Rightarrow> \<not> isl (strptime timestamp CSV_FORMAT))"

definition electricity_entry :: "(string \<Rightarrow> 'f option) \<Rightarrow> string list \<Rightarrow> 'f pydict" where
  "electricity_entry float_of row =
     Map.empty((''tsISO8601'' # ELECTRICITY_KEYS)
        [\<mapsto>] (PDatetime (projr (strptime (hd row) CSV_FORMAT)) #
                map (safe_string_to_float float_of) (tl row)))"

text \<open>The record the single-value parser builds from a row of two columns.\<close>

definition single_value_entry :: "(string \<Rightarrow> 'f option) \<Rightarrow> string list \<Rightarrow> 'f pydict" where
  "single_value_entry float_of row =
     [''tsISO8601'' \<mapsto> PDatetime (projr (strptime (row ! 0) CSV_FORMAT)),
      ''value'' \<mapsto> safe_string_to_float float_of (row ! 1)]"

text \<open>The payloads of the POSTs of a trace, in order.\<close>

fun posts :: "'p event list \<Rightarrow> string list" where
  "posts [] = []"
| "posts (Post payload # evs) = payload # posts evs"
| "posts (_ # evs) = posts evs"

text \<open>
  \<open>fresh n v\<close>: if \<open>v\<close> is a reference, its address is not among the first \<open>n\<close>.
  \<open>frames n Q m\<close>: run on a store of at least \<open>n\<close> objects, the program \<open>m\<close> keeps
  them as they are, never shrinks the store, and its result satisfies \<open>Q\<close>.
\<close>

definition fresh :: "nat \<Rightarrow> 'f hval \<Rightarrow> bool" where
  "fresh n v = (case v of HRef a \<Rightarrow> n \<le> a | _ \<Rightarrow> True)"

definition frames :: "nat \<Rightarrow> ('a \<Rightarrow> bool) \<Rightarrow> ('f, 'a) prog \<Rightarrow> bool" where
  "frames n Q m =
     (\<forall>h. n \<le> length h \<longrightarrow>
        (case m h of (r, h') \<Rightarrow>
           length h \<le> length h' \<and> take n h' = take n h \<and>
           (case r of Inr x \<Rightarrow> Q x | Inl e \<Rightarrow> True)))"

section \<open>Properties\<close>

subsection \<open>Auxiliary facts\<close>

lemma bind_err_simps [simp]:
  "bind_err (Inl e) f = Inl e" "bind_err (Inr x) f = f x"
  by (simp_all add: bind_err_def)

lemma map_err_Inr:
  "(\<forall>x \<in> set xs. f x = Inr (g x)) \<Longrightarrow> map_err f xs = Inr (map g xs)"
  by (induction xs) auto

lemma map_err_Inl: "x \<in> set xs \<Longrightarrow> f x = Inl e \<Longrightarrow> \<exists>e'. map_err f xs = Inl e'"
  by (induction xs) (auto split: sum.splits)

lemma list_of_length_2: "length xs = 2 \<Longrightarrow> xs = [xs ! 0, xs ! 1]"
  by (cases xs; cases "tl xs") auto

lemma add_15_minutes:
  "datetime_add (mk_datetime 2020 1 1 10 0 0) (0, 900) = Inr (mk_datetime 2020 1 1 10 15 0)"
  "datetime_add (mk_datetime 2020 1 1 10 15 0) (0, 900) = Inr (mk_datetime 2020 1 1 10 30 0)"
  by (simp_all add: datetime_add_def mk_datetime_def ymd2ord_def ord2ymd_def days_before_year_def
        days_before_month_def DAYS_BEFORE_MONTH_def DAYS_IN_MONTH_def is_leap_def MAXORDINAL_def
        Let_def)

lemma timedelta_15: "timedelta_minutes 15 = Inr (0, 900)"
  by (simp add: timedelta_minutes_def)

lemma strptime_example:
  "strptime ''2020-01-01 10:00:00'' CSV_FORMAT = Inr (mk_datetime 2020 1 1 10 0 0)"
  by code_simp

lemma strptime_hello: "strptime ''hello'' CSV_FORMAT = Inl ValueError"
  by code_simp

lemma strptime_error: "strptime s f = Inl e \<Longrightarrow> e = ValueError"
  by (auto simp: strptime_def Let_def split: list.splits prod.splits if_splits)

lemma strptime_year_999:
  "strptime ''0999-01-01 10:00:00'' CSV_FORMAT = Inr (mk_datetime 999 1 1 10 0 0)"
  by code_simp

lemma render_examples: "dec 2020 = ''2020''" "dec 999 = ''999''" "zfill 2 (dec 1) = ''01''"
  "zfill 2 (dec 10) = ''10''" "zfill 2 (dec 0) = ''00''" "zfill 4 ''2020'' = ''2020''"
  by code_simp+

lemma dec_nonempty: "dec n \<noteq> []"
  by (subst dec.simps) simp

lemma length_dec_ge_4:
  assumes "1000 \<le> n"
  shows "4 \<le> length (dec n)"
proof -
  from assms have big: "\<not> n < 10" "\<not> n div 10 < 10" "\<not> n div 10 div 10 < 10"
    by arith+
  have "dec n = dec (n div 10 div 10 div 10) @
          [digit_char (n div 10 div 10 mod 10), digit_char (n div 10 mod 10),
           digit_char (n mod 10)]"
    using big
    by (subst dec.simps, simp, subst dec.simps, simp, subst dec.simps, simp)
  moreover have "1 \<le> length (dec (n div 10 div 10 div 10))"
    using dec_nonempty [of "n div 10 div 10 div 10"]
    by (cases "dec (n div 10 div 10 div 10)") simp_all
  ultimately show ?thesis by simp
qed

lemma zfill_4_dec: "1000 \<le> n \<Longrightarrow> zfill 4 (dec n) = dec n"
  using length_dec_ge_4 [of n] by (simp add: zfill_def)

subsection \<open>Padding and shift\<close>

text \<open>
  Claim C1. The claim says that the padding record carries the second record's
  \<open>value\<close>. The code stores the second record itself under \<open>value\<close>: for two records
  at 10:00 (value 1) and 10:15 (value 2) and a shift of 15 minutes, the padding record is
  the first record with \<open>value\<close> bound to the whole second dictionary, not to 2. The
  timestamps are as claimed: 10:00 for the padding record, then 10:15 and 10:30.
\<close>

theorem prepend_padding_value_stores_record:
  "u_prepend_padding_value
     [[''tsISO8601'' \<mapsto> PDatetime (mk_datetime 2020 1 1 10 0 0), ''value'' \<mapsto> PFloat (1::rat)],
      [''tsISO8601'' \<mapsto> PDatetime (mk_datetime 2020 1 1 10 15 0), ''value'' \<mapsto> PFloat 2]] 15 =
   Inr [[''tsISO8601'' \<mapsto> PDatetime (mk_datetime 2020 1 1 10 0 0),
         ''value'' \<mapsto> PDict [''tsISO8601'' \<mapsto> PDatetime (mk_datetime 2020 1 1 10 15 0),
                                 ''value'' \<mapsto> PFloat 2]],
        [''tsISO8601'' \<mapsto> PDatetime (mk_datetime 2020 1 1 10 15 0), ''value'' \<mapsto> PFloat 1],
        [''tsISO8601'' \<mapsto> PDatetime (mk_datetime 2020 1 1 10 30 0), ''value'' \<mapsto> PFloat 2]]"
  by (simp add: u_prepend_padding_value_def list_get_def getitem_def py_add_timedelta_def
        timedelta_15 add_15_minutes
        fun_upd_twist [of "''value''" "''tsISO8601''"] del: One_nat_def)

lemma shift_loop_prefix:
  "shift_loop minutes ts acc = Inr out \<Longrightarrow> take (length acc) out = acc \<and> length out = length acc + length ts"
proof (induction ts arbitrary: acc)
  case Nil
  then show ?case by simp
next
  case (Cons entry rest)
  from Cons.prems obtain t delta s where
    "shift_loop minutes rest (acc @ [entry ++ [''tsISO8601'' \<mapsto> s]]) = Inr out"
    by (auto simp: bind_err_def split: sum.splits)
  from Cons.IH [OF this] show ?case
    by (auto simp: take_Suc_conv_app_nth dest: arg_cong [where f = "take (length acc)"])
qed

text \<open>
  Whenever the padding step returns, its first record is the first input record with the
  whole second record under \<open>value\<close>, and one record follows for each input record.
\<close>

lemma prepend_padding_value_head:
  assumes "u_prepend_padding_value ts minutes = Inr out"
  shows "length out = Suc (length ts) \<and> 2 \<le> length ts \<and>
         hd out = (ts ! 0) ++ [''value'' \<mapsto> PDict (ts ! 1)]"
proof -
  from assms have len: "2 \<le> length ts"
    by (auto simp: u_prepend_padding_value_def list_get_def bind_err_def split: if_splits)
  then have "ts \<noteq> []" by auto
  with len assms
  have "shift_loop minutes ts [(ts ! 0) ++ [''value'' \<mapsto> PDict (ts ! 1)]] = Inr out"
    by (simp add: u_prepend_padding_value_def list_get_def)
  from shift_loop_prefix [OF this] len show ?thesis
    by (cases out) auto
qed

text \<open>
  Claim C8. With \<open>minutes_shift\<close> set and fewer than two records in the wrapped
  timeserie, \<open>build_unified_packets\<close> produces no packets: it raises IndexError (the
  insufficient-data error), whatever the other settings are.
\<close>

theorem build_unified_packets_insufficient:
  assumes "length (timeserie self) < 2" and "minutes_shift self = Some m"
  shows "build_unified_packets float_mul self reference = Inl IndexError"
proof (cases "timeserie self")
  case Nil
  with assms show ?thesis
    by (simp add: build_unified_packets_def u_prepend_padding_value_def list_get_def)
next
  case (Cons e es)
  with assms have "es = []" by simp
  with Cons assms show ?thesis
    by (simp add: build_unified_packets_def u_prepend_padding_value_def list_get_def)
qed

theorem build_unified_packets_insufficient_witness:
  "build_unified_packets (\<lambda>(x::rat) n. x * of_int n)
     \<lparr>timeserie =
        [[''tsISO8601'' \<mapsto> PDatetime (mk_datetime 2020 1 1 10 0 0), ''value'' \<mapsto> PFloat 1]],
      fake_electric = True, minutes_shift = Some 15\<rparr> ''abc123'' = Inl IndexError"
  using build_unified_packets_insufficient
    [of "\<lparr>timeserie =
           [[''tsISO8601'' \<mapsto> PDatetime (mk_datetime 2020 1 1 10 0 0),
             ''value'' \<mapsto> PFloat (1::rat)]],
          fake_electric = True, minutes_shift = Some 15\<rparr>"
        15 "\<lambda>(x::rat) n. x * of_int n" "''abc123''"]
  by simp

subsection \<open>Electrification\<close>

lemma electrify_entry_float:
  assumes "e ''tsISO8601'' = Some t" and "e ''value'' = Some (PFloat x)"
  shows "electrify_entry float_mul e =
           Inr [''tsISO8601'' \<mapsto> t, ''pC_1'' \<mapsto> PFloat x, ''aP_1'' \<mapsto> PFloat (float_mul x 6)]"
  using assms by (simp add: electrify_entry_def getitem_def py_mul_def)

lemma u_electrify_floats:
  assumes "\<forall>e \<in> set ts. \<exists>t x. e ''tsISO8601'' = Some t \<and> e ''value'' = Some (PFloat x)"
  shows "u_electrify float_mul ts = Inr (map (electrified float_mul) ts)"
proof -
  have "electrify_entry float_mul e = Inr (electrified float_mul e)" if "e \<in> set ts" for e
  proof -
    from assms that obtain t x where "e ''tsISO8601'' = Some t" "e ''value'' = Some (PFloat x)"
      by blast
    then show ?thesis by (simp add: electrify_entry_float electrified_def)
  qed
  then show ?thesis
    unfolding u_electrify_def by (intro map_err_Inr) simp
qed

lemma electrify_entry_None:
  assumes "e ''value'' = Some PNone"
  shows "\<exists>err. electrify_entry float_mul e = Inl err"
  using assms
  by (cases "e ''tsISO8601''") (simp_all add: electrify_entry_def getitem_def py_mul_def)

text \<open>
  Claim C4, amended. On a timeserie whose entries have a timestamp and a float value,
  \<open>_electrify\<close> returns a list of the same length, in the same order, whose \<open>i\<close>-th
  dictionary has exactly the keys \<open>tsISO8601\<close>, \<open>pC_1\<close> and \<open>aP_1\<close>: the timestamp of
  the \<open>i\<close>-th entry, its value, and its value times 6. No other key of the entry
  survives.
\<close>

theorem electrify_maps:
  assumes "\<forall>e \<in> set ts. \<exists>t x. e ''tsISO8601'' = Some t \<and> e ''value'' = Some (PFloat x)"
  shows "\<exists>out. u_electrify float_mul ts = Inr out \<and> length out = length ts \<and>
           (\<forall>i < length ts. \<exists>t x.
              (ts ! i) ''tsISO8601'' = Some t \<and> (ts ! i) ''value'' = Some (PFloat x) \<and>
              out ! i = [''tsISO8601'' \<mapsto> t, ''pC_1'' \<mapsto> PFloat x,
                         ''aP_1'' \<mapsto> PFloat (float_mul x 6)] \<and>
              dom (out ! i) = {''tsISO8601'', ''pC_1'', ''aP_1''})"
proof -
  let ?out = "map (electrified float_mul) ts"
  have "\<exists>t x. (ts ! i) ''tsISO8601'' = Some t \<and> (ts ! i) ''value'' = Some (PFloat x) \<and>
          ?out ! i = [''tsISO8601'' \<mapsto> t, ''pC_1'' \<mapsto> PFloat x,
                      ''aP_1'' \<mapsto> PFloat (float_mul x 6)] \<and>
          dom (?out ! i) = {''tsISO8601'', ''pC_1'', ''aP_1''}" if "i < length ts" for i
  proof -
    from that have "ts ! i \<in> set ts" by simp
    with assms obtain t x where
      "(ts ! i) ''tsISO8601'' = Some t" "(ts ! i) ''value'' = Some (PFloat x)"
      by blast
    with that show ?thesis by (auto simp: electrified_def)
  qed
  with u_electrify_floats [OF assms, of float_mul] show ?thesis by simp
qed

theorem electrify_maps_witness:
  "u_electrify (\<lambda>(x::rat) n. x * of_int n)
     [[''tsISO8601'' \<mapsto> PDatetime (mk_datetime 2020 1 1 10 0 0), ''value'' \<mapsto> PFloat 5],
      [''tsISO8601'' \<mapsto> PDatetime (mk_datetime 2020 1 1 10 15 0), ''value'' \<mapsto> PFloat 2,
       ''note'' \<mapsto> PNone]] =
   Inr [[''tsISO8601'' \<mapsto> PDatetime (mk_datetime 2020 1 1 10 0 0),
         ''pC_1'' \<mapsto> PFloat 5, ''aP_1'' \<mapsto> PFloat 30],
        [''tsISO8601'' \<mapsto> PDatetime (mk_datetime 2020 1 1 10 15 0),
         ''pC_1'' \<mapsto> PFloat 2, ''aP_1'' \<mapsto> PFloat 12]]"
proof -
  let ?mul = "\<lambda>(x::rat) n. x * of_int n"
  let ?ts = "[[''tsISO8601'' \<mapsto> PDatetime (mk_datetime 2020 1 1 10 0 0),
               ''value'' \<mapsto> PFloat (5 :: rat)],
              [''tsISO8601'' \<mapsto> PDatetime (mk_datetime 2020 1 1 10 15 0),
               ''value'' \<mapsto> PFloat 2, ''note'' \<mapsto> PNone]]"
  have pre: "\<forall>e \<in> set ?ts. \<exists>t x. e ''tsISO8601'' = Some t \<and> e ''value'' = Some (PFloat x)"
    by simp
  from electrify_maps [OF pre, of ?mul] obtain out where
    res: "u_electrify ?mul ?ts = Inr out" and len: "length out = length ?ts" and
    nth: "\<forall>i < length ?ts. \<exists>t x.
            (?ts ! i) ''tsISO8601'' = Some t \<and> (?ts ! i) ''value'' = Some (PFloat x) \<and>
            out ! i = [''tsISO8601'' \<mapsto> t, ''pC_1'' \<mapsto> PFloat x,
                       ''aP_1'' \<mapsto> PFloat (?mul x 6)] \<and>
            dom (out ! i) = {''tsISO8601'', ''pC_1'', ''aP_1''}"
    by (elim exE conjE)
  have len2: "length out = 2" using len by simp
  have "0 < length ?ts" by simp
  from nth [rule_format, OF this] obtain t x where
    "(?ts ! 0) ''tsISO8601'' = Some t" "(?ts ! 0) ''value'' = Some (PFloat x)"
    "out ! 0 = [''tsISO8601'' \<mapsto> t, ''pC_1'' \<mapsto> PFloat x, ''aP_1'' \<mapsto> PFloat (?mul x 6)]"
    by (elim exE conjE)
  then have o0:
    "out ! 0 = [''tsISO8601'' \<mapsto> PDatetime (mk_datetime 2020 1 1 10 0 0),
                ''pC_1'' \<mapsto> PFloat 5, ''aP_1'' \<mapsto> PFloat 30]"
    by simp
  have "1 < length ?ts" by simp
  from nth [rule_format, OF this] obtain t x where
    "(?ts ! 1) ''tsISO8601'' = Some t" "(?ts ! 1) ''value'' = Some (PFloat x)"
    "out ! 1 = [''tsISO8601'' \<mapsto> t, ''pC_1'' \<mapsto> PFloat x, ''aP_1'' \<mapsto> PFloat (?mul x 6)]"
    by (elim exE conjE)
  then have o1:
    "out ! 1 = [''tsISO8601'' \<mapsto> PDatetime (mk_datetime 2020 1 1 10 15 0),
                ''pC_1'' \<mapsto> PFloat 2, ''aP_1'' \<mapsto> PFloat 12]"
    by simp
  from list_of_length_2 [OF len2] o0 o1 res show ?thesis by simp
qed

text \<open>
  The claim as stated covers every record. A record whose value is None, which the
  single-value parser produces for an unparseable column, is not mapped: the step raises.
\<close>

theorem electrify_null_value_raises:
  "u_electrify (\<lambda>(x::rat) n. x * of_int n)
     [[''tsISO8601'' \<mapsto> PDatetime (mk_datetime 2020 1 1 10 0 0), ''value'' \<mapsto> PNone]] =
   Inl TypeError"
  by (simp add: u_electrify_def electrify_entry_def getitem_def py_mul_def)

text \<open>
  Claim C10. Electrification is total on timeseries whose entries have a timestamp and
  a float value. An entry whose value is None makes it raise instead of returning
  dictionaries with null fields; when every entry has both keys, what it raises is
  TypeError, from \<^verbatim>\<open>None * 6\<close>.
\<close>

theorem electrify_defined_on_floats:
  "((\<forall>e \<in> set ts. \<exists>t x. e ''tsISO8601'' = Some t \<and> e ''value'' = Some (PFloat x)) \<longrightarrow>
      (\<exists>out. u_electrify float_mul ts = Inr out)) \<and>
   ((\<exists>e \<in> set ts. e ''value'' = Some PNone) \<longrightarrow>
      (\<exists>err. u_electrify float_mul ts = Inl err)) \<and>
   ((\<exists>e \<in> set ts. e ''value'' = Some PNone) \<and>
    (\<forall>e \<in> set ts. e ''tsISO8601'' \<noteq> None \<and> e ''value'' \<noteq> None) \<longrightarrow>
      u_electrify float_mul ts = Inl TypeError)"
proof (intro conjI impI)
  assume "\<forall>e \<in> set ts. \<exists>t x. e ''tsISO8601'' = Some t \<and> e ''value'' = Some (PFloat x)"
  then show "\<exists>out. u_electrify float_mul ts = Inr out"
    by (simp add: u_electrify_floats)
next
  assume "\<exists>e \<in> set ts. e ''value'' = Some PNone"
  then obtain e where e: "e \<in> set ts" "e ''value'' = Some PNone" by blast
  from electrify_entry_None [of e float_mul, OF e(2)] e(1)
  show "\<exists>err. u_electrify float_mul ts = Inl err"
    unfolding u_electrify_def by (blast dest: map_err_Inl)
next
  assume a: "(\<exists>e \<in> set ts. e ''value'' = Some PNone) \<and>
             (\<forall>e \<in> set ts. e ''tsISO8601'' \<noteq> None \<and> e ''value'' \<noteq> None)"
  have ent: "electrify_entry float_mul e = Inl TypeError \<or>
             (\<exists>p. electrify_entry float_mul e = Inr p)"
    if "e ''tsISO8601'' \<noteq> None" "e ''value'' \<noteq> None" for e
    using that
    by (auto simp: electrify_entry_def getitem_def py_mul_def split: pyval.splits)
  have gen: "(\<forall>e \<in> set xs. e ''tsISO8601'' \<noteq> None \<and> e ''value'' \<noteq> None) \<Longrightarrow>
        map_err (electrify_entry float_mul) xs = Inl err \<Longrightarrow> err = TypeError" for xs err
  proof (induction xs)
    case Nil
    then show ?case by simp
  next
    case (Cons x xs)
    then show ?case using ent [of x] by (auto split: sum.splits)
  qed
  from a obtain e where e: "e \<in> set ts" "e ''value'' = Some PNone" by blast
  from electrify_entry_None [of e float_mul, OF e(2)] e(1)
  obtain err where "map_err (electrify_entry float_mul) ts = Inl err"
    by (blast dest: map_err_Inl)
  with gen [of ts err] a show "u_electrify float_mul ts = Inl TypeError"
    by (simp add: u_electrify_def)
qed

theorem electrify_defined_on_floats_witness:
  "(\<exists>out. u_electrify (\<lambda>(x::rat) n. x * of_int n)
      [[''tsISO8601'' \<mapsto> PDatetime (mk_datetime 2020 1 1 10 0 0), ''value'' \<mapsto> PFloat 5]]
      = Inr out) \<and>
   u_electrify (\<lambda>(x::rat) n. x * of_int n)
     [[''tsISO8601'' \<mapsto> PDatetime (mk_datetime 2020 1 1 10 0 0), ''value'' \<mapsto> PFloat 5],
      [''tsISO8601'' \<mapsto> PDatetime (mk_datetime 2020 1 1 10 15 0), ''value'' \<mapsto> PNone]]
     = Inl TypeError"
proof
  show "\<exists>out. u_electrify (\<lambda>(x::rat) n. x * of_int n)
      [[''tsISO8601'' \<mapsto> PDatetime (mk_datetime 2020 1 1 10 0 0), ''value'' \<mapsto> PFloat 5]]
      = Inr out"
    using electrify_defined_on_floats
      [of "[[''tsISO8601'' \<mapsto> PDatetime (mk_datetime 2020 1 1 10 0 0),
             ''value'' \<mapsto> PFloat (5::rat)]]" "\<lambda>(x::rat) n. x * of_int n"]
    by simp
next
  show "u_electrify (\<lambda>(x::rat) n. x * of_int n)
     [[''tsISO8601'' \<mapsto> PDatetime (mk_datetime 2020 1 1 10 0 0), ''value'' \<mapsto> PFloat 5],
      [''tsISO8601'' \<mapsto> PDatetime (mk_datetime 2020 1 1 10 15 0), ''value'' \<mapsto> PNone]]
     = Inl TypeError"
    using electrify_defined_on_floats
      [of "[[''tsISO8601'' \<mapsto> PDatetime (mk_datetime 2020 1 1 10 0 0),
             ''value'' \<mapsto> PFloat (5::rat)],
            [''tsISO8601'' \<mapsto> PDatetime (mk_datetime 2020 1 1 10 15 0),
             ''value'' \<mapsto> PNone]]" "\<lambda>(x::rat) n. x * of_int n"]
    by simp
qed

subsection \<open>Packaging\<close>

lemma strftime_TS_FORMAT:
  "strftime d TS_FORMAT =
     dec (year d) @ ''-'' @ zfill 2 (dec (month d)) @ ''-'' @ zfill 2 (dec (day d)) @
     ''T'' @ zfill 2 (dec (hour d)) @ '':'' @ zfill 2 (dec (minute d)) @ '':'' @
     zfill 2 (dec (second d)) @ ''.000+00:00''"
  by (simp add: TS_FORMAT_def directive_def)

lemma packaged_datetime:
  "e ''tsISO8601'' = Some (PDatetime d) \<Longrightarrow>
   packaged reference e =
     e ++ [''id'' \<mapsto> PStr reference, ''tsISO8601'' \<mapsto> PStr (strftime d TS_FORMAT)]"
  by (simp add: packaged_def)

lemma packet_loop_datetimes:
  "\<forall>e \<in> set ts. \<exists>d. e ''tsISO8601'' = Some (PDatetime d) \<Longrightarrow>
   packet_loop reference ts packets = Inr (packets @ map (packaged reference) ts)"
proof (induction ts arbitrary: packets)
  case Nil
  then show ?case by simp
next
  case (Cons e ts)
  from Cons.prems obtain d where d: "e ''tsISO8601'' = Some (PDatetime d)" by auto
  from Cons.prems have "\<forall>e \<in> set ts. \<exists>d. e ''tsISO8601'' = Some (PDatetime d)" by simp
  from Cons.IH [OF this] d show ?case
    by (simp only: packet_loop.simps getitem_def py_strftime_def packaged_datetime [of e d reference, OF d]
          option.case pyval.case bind_err_simps Let_def list.map append_Cons append_Nil
          append_assoc)
qed




subsection \<open>The single-value parser\<close>

lemma single_value_entry_eq:
  "strptime timestamp CSV_FORMAT = Inr d \<Longrightarrow>
   single_value_entry float_of [timestamp, v] =
     [''tsISO8601'' \<mapsto> PDatetime d, ''value'' \<mapsto> safe_string_to_float float_of v]"
  by (simp add: single_value_entry_def)

lemma single_value_loop_ok:
  "\<forall>row \<in> set rows. length row = 2 \<and> \<not> isl (strptime (row ! 0) CSV_FORMAT) \<Longrightarrow>
   single_value_loop float_of rows ts = Inr (ts @ map (single_value_entry float_of) rows)"
proof (induction rows arbitrary: ts)
  case Nil
  then show ?case by simp
next
  case (Cons row rows)
  from Cons.prems have "length row = 2" and ok: "\<not> isl (strptime (row ! 0) CSV_FORMAT)"
    by simp_all
  then obtain timestamp v where row: "row = [timestamp, v]"
    by (cases row; cases "tl row") auto
  from ok row obtain d where d: "strptime timestamp CSV_FORMAT = Inr d"
    by (cases "strptime timestamp CSV_FORMAT") auto
  from Cons.prems
  have "\<forall>row \<in> set rows. length row = 2 \<and> \<not> isl (strptime (row ! 0) CSV_FORMAT)"
    by simp
  from Cons.IH [OF this] row d show ?case
    by (simp add: single_value_entry_eq)
qed

text \<open>
  Claim C6, amended. For rows that have exactly two columns and a first column that
  \<open>strptime\<close> parses, \<open>parse_single_value_csv\<close> returns one record per row, in file
  order; the record's \<open>value\<close> is the float of the second column, or None when
  \<open>float\<close> rejects it, and no error is raised for such a column.
\<close>

theorem parse_single_value_rows:
  assumes "\<forall>row \<in> set rows. length row = 2 \<and> \<not> isl (strptime (row ! 0) CSV_FORMAT)"
  shows "\<exists>out. parse_single_value_csv float_of rows = Inr out \<and> length out = length rows \<and>
           (\<forall>i < length rows.
              (out ! i) ''value'' =
                Some (case float_of (rows ! i ! 1) of Some x \<Rightarrow> PFloat x | None \<Rightarrow> PNone) \<and>
              (out ! i) ''tsISO8601'' =
                Some (PDatetime (projr (strptime (rows ! i ! 0) CSV_FORMAT))) \<and>
              dom (out ! i) = {''tsISO8601'', ''value''})"
proof -
  let ?out = "map (single_value_entry float_of) rows"
  have "parse_single_value_csv float_of rows = Inr ?out"
    using single_value_loop_ok [OF assms, of float_of "[]"]
    by (simp add: parse_single_value_csv_def)
  moreover have "length ?out = length rows" by simp
  moreover have "\<forall>i < length rows.
              (?out ! i) ''value'' =
                Some (case float_of (rows ! i ! 1) of Some x \<Rightarrow> PFloat x | None \<Rightarrow> PNone) \<and>
              (?out ! i) ''tsISO8601'' =
                Some (PDatetime (projr (strptime (rows ! i ! 0) CSV_FORMAT))) \<and>
              dom (?out ! i) = {''tsISO8601'', ''value''}"
    by (auto simp: single_value_entry_def safe_string_to_float_def)
  ultimately show ?thesis by blast
qed

theorem parse_single_value_rows_witness:
  "parse_single_value_csv (\<lambda>s. if s = ''12.5'' then Some (25 / 2 :: rat) else None)
     [[''2020-01-01 10:00:00'', ''12.5''], [''2020-01-01 10:00:00'', ''n/a'']] =
   Inr [[''tsISO8601'' \<mapsto> PDatetime (mk_datetime 2020 1 1 10 0 0), ''value'' \<mapsto> PFloat (25 / 2)],
        [''tsISO8601'' \<mapsto> PDatetime (mk_datetime 2020 1 1 10 0 0), ''value'' \<mapsto> PNone]]"
proof -
  let ?f = "\<lambda>s. if s = ''12.5'' then Some (25 / 2 :: rat) else None"
  let ?rows = "[[''2020-01-01 10:00:00'', ''12.5''], [''2020-01-01 10:00:00'', ''n/a'']]"
  have pre: "\<forall>row \<in> set ?rows. length row = 2 \<and> \<not> isl (strptime (row ! 0) CSV_FORMAT)"
    by (simp add: strptime_example)
  from parse_single_value_rows [OF pre, of ?f] obtain out where
    res: "parse_single_value_csv ?f ?rows = Inr out" and len: "length out = length ?rows" and
    nth: "\<forall>i < length ?rows.
              (out ! i) ''value'' =
                Some (case ?f (?rows ! i ! 1) of Some x \<Rightarrow> PFloat x | None \<Rightarrow> PNone) \<and>
              (out ! i) ''tsISO8601'' =
                Some (PDatetime (projr (strptime (?rows ! i ! 0) CSV_FORMAT))) \<and>
              dom (out ! i) = {''tsISO8601'', ''value''}"
    by (elim exE conjE)
  have dom_eq: "m = [''tsISO8601'' \<mapsto> t, ''value'' \<mapsto> v]"
    if "m ''value'' = Some v" "m ''tsISO8601'' = Some t" "dom m = {''tsISO8601'', ''value''}"
    for m :: "rat pydict" and t v
  proof
    fix k
    show "m k = [''tsISO8601'' \<mapsto> t, ''value'' \<mapsto> v] k"
      using that by (cases "k \<in> dom m") (auto simp: domIff)
  qed
  have "0 < length ?rows" by simp
  from nth [rule_format, OF this] have o0:
    "out ! 0 = [''tsISO8601'' \<mapsto> PDatetime (mk_datetime 2020 1 1 10 0 0), ''value'' \<mapsto> PFloat (25 / 2)]"
    by (intro dom_eq) (simp_all add: strptime_example)
  have "1 < length ?rows" by simp
  from nth [rule_format, OF this] have o1:
    "out ! 1 = [''tsISO8601'' \<mapsto> PDatetime (mk_datetime 2020 1 1 10 0 0), ''value'' \<mapsto> PNone]"
    by (intro dom_eq) (simp_all add: strptime_example)
  have "length out = 2" using len by simp
  from list_of_length_2 [OF this] o0 o1 res show ?thesis by simp
qed

text \<open>
  The claim as stated covers every file whose rows have two columns. A row whose first
  column is not a timestamp makes the parser raise ValueError.
\<close>

theorem parse_single_value_bad_timestamp:
  "parse_single_value_csv (\<lambda>s. if s = ''1.0'' then Some (1::rat) else None)
     [[''hello'', ''1.0'']] = Inl ValueError"
  by (simp add: parse_single_value_csv_def strptime_hello)

subsection \<open>The electricity parser\<close>

lemma electricity_loop_ok:
  "\<forall>row \<in> set rows. row_ok row \<Longrightarrow>
   electricity_loop float_of rows ts = Inr (ts @ map (electricity_entry float_of) rows)"
proof (induction rows arbitrary: ts)
  case Nil
  then show ?case by simp
next
  case (Cons row rows)
  from Cons.prems have "row_ok row" by simp
  then obtain timestamp vals d where row: "row = timestamp # vals"
    and d: "strptime timestamp CSV_FORMAT = Inr d"
    by (cases row; cases "strptime (hd row) CSV_FORMAT") (auto simp: row_ok_def)
  from Cons.prems have "\<forall>row \<in> set rows. row_ok row" by simp
  from Cons.IH [OF this] row d show ?case
    by (simp add: electricity_entry_def)
qed

lemma electricity_loop_bad:
  "\<not> (\<forall>row \<in> set rows. row_ok row) \<Longrightarrow> electricity_loop float_of rows ts = Inl ValueError"
proof (induction rows arbitrary: ts)
  case Nil
  then show ?case by simp
next
  case (Cons row rows)
  show ?case
  proof (cases row)
    case Nil
    then show ?thesis by simp
  next
    case (Cons timestamp vals)
    note row = this
    show ?thesis
    proof (cases "strptime timestamp CSV_FORMAT")
      case (Inl e)
      with strptime_error [OF Inl] row show ?thesis by simp
    next
      case (Inr d)
      with row have "row_ok row" by (simp add: row_ok_def)
      with Cons.prems have "\<not> (\<forall>row \<in> set rows. row_ok row)" by simp
      from Cons.IH [OF this] row Inr show ?thesis by simp
    qed
  qed
qed

lemma dom_electricity_entry:
  "dom (electricity_entry float_of row) =
     insert ''tsISO8601'' (set (take (length row - 1) ELECTRICITY_KEYS))"
  by (simp add: electricity_entry_def dom_map_upds)

lemma length_ELECTRICITY_KEYS: "length ELECTRICITY_KEYS = 21"
  by (simp add: ELECTRICITY_KEYS_def)

text \<open>
  Claim C3, amended. A file is accepted exactly when every row has a timestamp column
  that parses; otherwise the parser raises ValueError. The number of value columns is not
  checked: the record of a row with \<open>n\<close> value columns has the key \<open>tsISO8601\<close> and the
  first \<open>n\<close> of the 21 electricity keys, so it has exactly the 21 keys and the timestamp
  when the row has 21 value columns or more (the columns beyond the 21st are dropped).
\<close>

theorem parse_electricity_keys:
  "((\<forall>row \<in> set rows. row_ok row) \<longrightarrow>
     (\<exists>out. parse_electricity_csv float_of rows = Inr out \<and> length out = length rows \<and>
        (\<forall>i < length rows.
           dom (out ! i) = insert ''tsISO8601'' (set (take (length (rows ! i) - 1) ELECTRICITY_KEYS)) \<and>
           (21 \<le> length (rows ! i) - 1 \<longrightarrow>
              dom (out ! i) = insert ''tsISO8601'' (set ELECTRICITY_KEYS))))) \<and>
   (\<not> (\<forall>row \<in> set rows. row_ok row) \<longrightarrow> parse_electricity_csv float_of rows = Inl ValueError)"
proof (intro conjI impI)
  assume ok: "\<forall>row \<in> set rows. row_ok row"
  let ?out = "map (electricity_entry float_of) rows"
  have "parse_electricity_csv float_of rows = Inr ?out"
    using electricity_loop_ok [OF ok, of float_of "[]"] by (simp add: parse_electricity_csv_def)
  moreover have "length ?out = length rows" by simp
  moreover have "\<forall>i < length rows.
           dom (?out ! i) = insert ''tsISO8601'' (set (take (length (rows ! i) - 1) ELECTRICITY_KEYS)) \<and>
           (21 \<le> length (rows ! i) - 1 \<longrightarrow>
              dom (?out ! i) = insert ''tsISO8601'' (set ELECTRICITY_KEYS))"
    by (simp add: dom_electricity_entry length_ELECTRICITY_KEYS)
  ultimately show "\<exists>out. parse_electricity_csv float_of rows = Inr out \<and> length out = length rows \<and>
        (\<forall>i < length rows.
           dom (out ! i) = insert ''tsISO8601'' (set (take (length (rows ! i) - 1) ELECTRICITY_KEYS)) \<and>
           (21 \<le> length (rows ! i) - 1 \<longrightarrow>
              dom (out ! i) = insert ''tsISO8601'' (set ELECTRICITY_KEYS)))"
    by blast
next
  assume "\<not> (\<forall>row \<in> set rows. row_ok row)"
  then show "parse_electricity_csv float_of rows = Inl ValueError"
    by (simp add: parse_electricity_csv_def electricity_loop_bad)
qed

theorem parse_electricity_keys_witness:
  "(\<exists>out. parse_electricity_csv (\<lambda>s. if s = ''1.0'' then Some (1::rat) else None)
             [''2020-01-01 10:00:00'' # replicate 21 ''1.0''] = Inr out \<and>
          length out = 1 \<and> dom (out ! 0) = insert ''tsISO8601'' (set ELECTRICITY_KEYS)) \<and>
   parse_electricity_csv (\<lambda>s. if s = ''1.0'' then Some (1::rat) else None)
     [[''2020-01-01 10:00:00'', ''1.0''], []] = Inl ValueError"
proof
  let ?f = "\<lambda>s. if s = ''1.0'' then Some (1::rat) else None"
  let ?rows = "[''2020-01-01 10:00:00'' # replicate 21 ''1.0'']"
  have ok: "\<forall>row \<in> set ?rows. row_ok row"
    by (simp add: row_ok_def strptime_example)
  from parse_electricity_keys [of ?rows ?f, THEN conjunct1, THEN mp, OF ok] obtain out where
    res: "parse_electricity_csv ?f ?rows = Inr out" and len: "length out = length ?rows" and
    nth: "\<forall>i < length ?rows.
           dom (out ! i) =
             insert ''tsISO8601'' (set (take (length (?rows ! i) - 1) ELECTRICITY_KEYS)) \<and>
           (21 \<le> length (?rows ! i) - 1 \<longrightarrow>
              dom (out ! i) = insert ''tsISO8601'' (set ELECTRICITY_KEYS))"
    by (elim conjE exE)
  have "0 < length ?rows" by simp
  from nth [rule_format, OF this]
  have "dom (out ! 0) = insert ''tsISO8601'' (set ELECTRICITY_KEYS)"
    by (simp add: length_ELECTRICITY_KEYS)
  with res len
  show "\<exists>out. parse_electricity_csv ?f ?rows = Inr out \<and> length out = 1 \<and>
          dom (out ! 0) = insert ''tsISO8601'' (set ELECTRICITY_KEYS)"
    by simp
next
  let ?f = "\<lambda>s. if s = ''1.0'' then Some (1::rat) else None"
  let ?rows = "[[''2020-01-01 10:00:00'', ''1.0''], []]"
  have bad: "\<not> (\<forall>row \<in> set ?rows. row_ok row)"
    by (simp add: row_ok_def)
  from parse_electricity_keys [of ?rows ?f, THEN conjunct2, THEN mp, OF bad]
  show "parse_electricity_csv ?f ?rows = Inl ValueError" .
qed

text \<open>
  The claim as stated rejects a row whose number of value columns is not 21. A row with
  one value column is accepted, and its record has two keys.
\<close>

theorem parse_electricity_short_row:
  "parse_electricity_csv (\<lambda>s. if s = ''1.0'' then Some (1::rat) else None)
     [[''2020-01-01 10:00:00'', ''1.0'']] =
   Inr [[''tsISO8601'' \<mapsto> PDatetime (mk_datetime 2020 1 1 10 0 0), ''aP_1'' \<mapsto> PFloat 1]]"
  by (simp add: parse_electricity_csv_def strptime_example ELECTRICITY_KEYS_def
        safe_string_to_float_def fun_upd_twist [of "''aP_1''" "''tsISO8601''"] del: One_nat_def)

subsection \<open>The uploader\<close>

text \<open>
  Claim C2. The claim says that every status from 200 to 299 is logged at debug level.
  The code divides with \<^verbatim>\<open>/\<close>, so the class of 201 is 2.01: a response with status
  201 is logged at error level.
\<close>

theorem send_201_logged_as_error:
  "send (\<lambda>p. Inr p) (\<lambda>k payload. Response 201 ''Created'') [''{}''] =
     ([Log INFO ''Starting the swarm'', Post ''{}'', LogResponse ERROR 201 ''{}'' ''Created'',
       Log INFO ''Completed''], Inr ())"
  by (simp add: send_def strip_def is_space_def)

text \<open>The level for any status: debug for 200 only, warning for 300 only.\<close>

lemma send_response_level:
  assumes "dumps p = Inr payload" and "net 0 payload = Response status_code text"
  shows "fst (send dumps net [p]) =
           [Log INFO ''Starting the swarm'', Post payload,
            LogResponse (if status_code = 200 then DEBUG
                         else if status_code = 300 then WARNING else ERROR)
              status_code p (strip text),
            Log INFO ''Completed'']"
  using assms by (simp add: send_def Let_def)

lemma posts_append: "posts (xs @ ys) = posts xs @ posts ys"
  by (induction xs rule: posts.induct) simp_all

lemma send_loop_serialisable:
  assumes "\<forall>p \<in> set packets. \<not> isl (dumps p)"
    and "\<forall>i < length packets. \<forall>e. net (k + i) (projr (dumps (packets ! i))) \<noteq> OtherException e"
  shows "snd (send_loop dumps net k packets) = Inr () \<and>
         posts (fst (send_loop dumps net k packets)) = map (\<lambda>p. projr (dumps p)) packets"
  using assms
proof (induction packets arbitrary: k)
  case Nil
  then show ?case by simp
next
  case (Cons p packets)
  from Cons.prems(1) obtain payload where p: "dumps p = Inr payload"
    by (cases "dumps p") auto
  from Cons.prems(1) have ok: "\<forall>p \<in> set packets. \<not> isl (dumps p)" by simp
  from Cons.prems(2) [rule_format, of 0] p have first: "\<forall>e. net k payload \<noteq> OtherException e"
    by simp
  have "net (Suc k + i) (projr (dumps (packets ! i))) \<noteq> OtherException e"
    if "i < length packets" for i e
    using Cons.prems(2) [rule_format, of "Suc i" e] that by simp
  then have "\<forall>i < length packets. \<forall>e.
               net (Suc k + i) (projr (dumps (packets ! i))) \<noteq> OtherException e"
    by blast
  from Cons.IH [OF ok this] p first show ?case
    by (cases "net k payload") (simp_all add: split_beta Let_def)
qed

lemma send_loop_critical:
  assumes "\<forall>p \<in> set packets. \<not> isl (dumps p)"
    and "\<forall>i < length packets. \<forall>e. net (k + i) (projr (dumps (packets ! i))) \<noteq> OtherException e"
    and "i < length packets"
    and "net (k + i) (projr (dumps (packets ! i))) = RequestException x"
  shows "LogException CRITICAL x \<in> set (fst (send_loop dumps net k packets))"
  using assms
proof (induction packets arbitrary: k i)
  case Nil
  then show ?case by simp
next
  case (Cons p packets)
  from Cons.prems(1) obtain payload where p: "dumps p = Inr payload"
    by (cases "dumps p") auto
  from Cons.prems(1) have ok: "\<forall>p \<in> set packets. \<not> isl (dumps p)" by simp
  from Cons.prems(2) [rule_format, of 0] p have first: "\<forall>e. net k payload \<noteq> OtherException e"
    by simp
  have "net (Suc k + i) (projr (dumps (packets ! i))) \<noteq> OtherException e"
    if "i < length packets" for i e
    using Cons.prems(2) [rule_format, of "Suc i" e] that by simp
  then have rest: "\<forall>i < length packets. \<forall>e.
               net (Suc k + i) (projr (dumps (packets ! i))) \<noteq> OtherException e"
    by blast
  show ?case
  proof (cases i)
    case 0
    with Cons.prems(4) p show ?thesis by (simp add: split_beta Let_def)
  next
    case (Suc j)
    with Cons.prems have "j < length packets"
      "net (Suc k + j) (projr (dumps (packets ! j))) = RequestException x"
      by simp_all
    from Cons.IH [OF ok rest this] p first show ?thesis
      by (cases "net k payload") (simp_all add: split_beta Let_def)
  qed
qed

text \<open>
  Transport failures never change which POSTs are made nor how the loop ends: the run
  makes the POSTs, and returns the result, of the run in which every
  \<open>RequestException\<close> is replaced by a response. This holds for every sequence of
  packets, serialisable or not.
\<close>

lemma send_loop_transport_failures:
  "posts (fst (send_loop dumps net k packets)) =
     posts (fst (send_loop dumps
       (\<lambda>k payload. case net k payload of
                       RequestException x \<Rightarrow> Response 200 [] | r \<Rightarrow> r) k packets)) \<and>
   snd (send_loop dumps net k packets) =
     snd (send_loop dumps
       (\<lambda>k payload. case net k payload of
                       RequestException x \<Rightarrow> Response 200 [] | r \<Rightarrow> r) k packets)"
proof (induction packets arbitrary: k)
  case Nil
  show ?case by simp
next
  case (Cons p packets)
  show ?case
  proof (cases "dumps p")
    case (Inl e)
    then show ?thesis by simp
  next
    case (Inr payload)
    with Cons.IH [of "Suc k"] show ?thesis
      by (cases "net k payload") (simp_all add: split_beta Let_def)
  qed
qed

text \<open>The same for \<open>send\<close>.\<close>

lemma send_transport_failures:
  "posts (fst (send dumps net packets)) =
     posts (fst (send dumps
       (\<lambda>k payload. case net k payload of
                       RequestException x \<Rightarrow> Response 200 [] | r \<Rightarrow> r) packets)) \<and>
   snd (send dumps net packets) =
     snd (send dumps
       (\<lambda>k payload. case net k payload of
                       RequestException x \<Rightarrow> Response 200 [] | r \<Rightarrow> r) packets)"
proof -
  let ?net = "\<lambda>k payload. case net k payload of
                              RequestException x \<Rightarrow> Response 200 [] | r \<Rightarrow> r"
  obtain evs r where a: "send_loop dumps net 0 packets = (evs, r)"
    by (cases "send_loop dumps net 0 packets")
  obtain evs' r' where b: "send_loop dumps ?net 0 packets = (evs', r')"
    by (cases "send_loop dumps ?net 0 packets")
  from send_loop_transport_failures [of dumps net 0 packets] a b
  have "posts evs = posts evs'" and "r = r'" by simp_all
  with a b show ?thesis
    by (cases r') (simp_all add: send_def posts_append)
qed




text \<open>An exception of \<open>session.post\<close> that is not a \<open>RequestException\<close> ends it as well.\<close>

lemma send_aborts_on_other_exception:
  "send (\<lambda>p. Inr p)
     (\<lambda>k payload. if k = 0 then OtherException UnicodeEncodeError else Response 200 ''ok'')
     [''p0'', ''p1''] =
   ([Log INFO ''Starting the swarm'', Post ''p0''], Inl UnicodeEncodeError)"
  by (simp add: send_def)

subsection \<open>The input store is left as it was\<close>

lemma framesI:
  assumes "\<And>h r h'. n \<le> length h \<Longrightarrow> m h = (r, h') \<Longrightarrow>
             length h \<le> length h' \<and> take n h' = take n h \<and> (\<forall>x. r = Inr x \<longrightarrow> Q x)"
  shows "frames n Q m"
  unfolding frames_def using assms by (auto split: prod.splits sum.splits)

lemma framesD:
  assumes "frames n Q m" and "n \<le> length h" and "m h = (r, h')"
  shows "length h \<le> length h'" and "take n h' = take n h" and "r = Inr x \<Longrightarrow> Q x"
  using assms unfolding frames_def by (auto split: prod.splits sum.splits)

lemma frames_ret: "Q x \<Longrightarrow> frames n Q (ret x)"
  by (rule framesI) (auto simp: ret_def)

lemma frames_throw: "frames n Q (throw e)"
  by (rule framesI) (auto simp: throw_def)

lemma frames_lift: "frames n (\<lambda>_. True) (lift r)"
  by (rule framesI) (auto simp: lift_def)

lemma frames_weaken: "frames n Q m \<Longrightarrow> (\<And>x. Q x \<Longrightarrow> Q' x) \<Longrightarrow> frames n Q' m"
  unfolding frames_def by (auto split: prod.splits sum.splits)

lemma frames_bind:
  assumes m: "frames n Q m" and f: "\<And>x. Q x \<Longrightarrow> frames n R (f x)"
  shows "frames n R (bind_st m f)"
proof (rule framesI)
  fix h r h'
  assume n: "n \<le> length h" and run: "bind_st m f h = (r, h')"
  obtain r1 h1 where m1: "m h = (r1, h1)" by (cases "m h")
  note d = framesD [OF m n m1]
  show "length h \<le> length h' \<and> take n h' = take n h \<and> (\<forall>x. r = Inr x \<longrightarrow> R x)"
  proof (cases r1)
    case (Inl e)
    with run m1 d show ?thesis by (auto simp: bind_st_def)
  next
    case (Inr x)
    with run m1 have fx: "f x h1 = (r, h')" by (simp add: bind_st_def)
    from d(3) [OF Inr] have "frames n R (f x)" by (rule f)
    moreover from n d(1) have "n \<le> length h1" by simp
    ultimately have "length h1 \<le> length h'" "take n h' = take n h1" "\<forall>y. r = Inr y \<longrightarrow> R y"
      using fx by (auto dest: framesD)
    with d show ?thesis by simp
  qed
qed

lemma frames_alloc: "frames n (fresh n) (alloc ob)"
  by (rule framesI) (auto simp: alloc_def fresh_def)

lemma frames_load: "frames n (\<lambda>_. True) (load v)"
  by (rule framesI) (auto simp: load_def split: hval.splits if_splits)

lemma frames_load_list: "frames n (\<lambda>_. True) (load_list v)"
  unfolding load_list_def
  by (rule frames_bind [OF frames_load]) (auto split: hobj.splits intro: frames_ret frames_throw)

lemma frames_load_dict: "frames n (\<lambda>_. True) (load_dict v)"
  unfolding load_dict_def
  by (rule frames_bind [OF frames_load]) (auto split: hobj.splits intro: frames_ret frames_throw)

lemma frames_subscript: "frames n (\<lambda>_. True) (subscript v k)"
  unfolding subscript_def
  by (rule frames_bind [OF frames_load_dict]) (auto split: option.splits intro: frames_ret frames_throw)

lemma frames_list_append:
  assumes "fresh n l"
  shows "frames n (\<lambda>_. True) (list_append l x)"
  unfolding list_append_def
proof (rule frames_bind [OF frames_load_list])
  fix xs
  show "frames n (\<lambda>_. True)
          (\<lambda>h. case l of HRef a \<Rightarrow> (Inr (), h[a := OList (xs @ [x])]) | _ \<Rightarrow> (Inl AttributeError, h))"
    using assms by (intro framesI) (auto simp: fresh_def split: hval.splits)
qed

lemma frames_dict_update:
  assumes "fresh n v"
  shows "frames n (\<lambda>_. True) (dict_update v d')"
  unfolding dict_update_def
proof (rule frames_bind [OF frames_load_dict])
  fix d
  show "frames n (\<lambda>_. True)
          (\<lambda>h. case v of HRef a \<Rightarrow> (Inr (), h[a := ODict (d ++ d')]) | _ \<Rightarrow> (Inl AttributeError, h))"
    using assms by (intro framesI) (auto simp: fresh_def split: hval.splits)
qed

lemma frames_dict_display:
  assumes "frames n (\<lambda>_. True) inner"
  shows "frames n (fresh n) (dict_display x inner)"
  unfolding dict_display_def
  by (intro frames_bind [OF frames_load_dict] frames_bind [OF frames_alloc]
        frames_bind [OF assms] frames_bind [OF frames_dict_update] frames_ret)

lemma frames_true: "frames n Q m \<Longrightarrow> frames n (\<lambda>_. True) m"
  by (erule frames_weaken) simp

lemma frames_hval_mul: "frames n (\<lambda>_. True) (hval_mul float_mul v k)"
  unfolding hval_mul_def
  by (auto split: hval.splits
        intro!: frames_ret frames_throw frames_bind [OF frames_load_list] frames_true [OF frames_alloc])

lemma frames_shift_loop:
  "fresh n acc \<Longrightarrow> frames n (\<lambda>_. True) (shift_loop_st minutes xs acc)"
proof (induction xs)
  case Nil
  then show ?case by (simp add: frames_ret)
next
  case (Cons entry rest)
  then show ?case
    by (auto intro!: frames_bind [OF frames_subscript] frames_bind [OF frames_lift]
          frames_bind [OF frames_dict_display] frames_bind [OF frames_list_append] frames_ret)
qed

lemma frames_electrify_loop:
  "fresh n acc \<Longrightarrow> frames n (\<lambda>_. True) (electrify_loop_st float_mul xs acc)"
proof (induction xs)
  case Nil
  then show ?case by (simp add: frames_ret)
next
  case (Cons entry rest)
  then show ?case
    by (auto intro!: frames_bind [OF frames_subscript] frames_bind [OF frames_hval_mul]
          frames_bind [OF frames_alloc] frames_bind [OF frames_list_append] frames_ret)
qed

lemma frames_packet_loop:
  "fresh n acc \<Longrightarrow> frames n (\<lambda>_. True) (packet_loop_st reference xs acc)"
proof (induction xs)
  case Nil
  then show ?case by (simp add: frames_ret)
next
  case (Cons entry rest)
  then show ?case
    by (auto intro!: frames_bind [OF frames_dict_display] frames_bind [OF frames_subscript]
          frames_bind [OF frames_lift] frames_bind [OF frames_list_append] frames_ret)
qed

lemma frames_prepend: "frames n (\<lambda>_. True) (u_prepend_padding_value_st ts minutes)"
  unfolding u_prepend_padding_value_st_def
  by (intro frames_bind [OF frames_load_list] frames_bind [OF frames_lift]
        frames_bind [OF frames_dict_display] frames_bind [OF frames_alloc]
        frames_bind [OF frames_shift_loop] frames_ret) simp_all

lemma frames_electrify: "frames n (\<lambda>_. True) (u_electrify_st float_mul ts)"
  unfolding u_electrify_st_def
  by (intro frames_bind [OF frames_load_list] frames_bind [OF frames_alloc]
        frames_bind [OF frames_electrify_loop] frames_ret) simp_all

lemma frames_packets: "frames n (\<lambda>_. True) (u_build_unified_packets_st ts reference)"
  unfolding u_build_unified_packets_st_def
  by (intro frames_bind [OF frames_alloc] frames_bind [OF frames_load_list]
        frames_bind [OF frames_packet_loop] frames_ret) simp_all

lemma frames_build: "frames n (\<lambda>_. True) (build_unified_packets_st float_mul self reference)"
  unfolding build_unified_packets_st_def
  by (intro frames_bind [where Q = "\<lambda>_. True"] frames_packets)
     (auto split: option.splits intro: frames_ret frames_prepend frames_electrify)

text \<open>
  Claim C9. Whatever the timeserie, the settings and the outcome (packets or an error),
  \<open>build_unified_packets\<close> leaves every object of the store it was called on as it was:
  the store before the call is a prefix of the store after it. The list of the wrapped
  timeserie and the dictionaries it refers to are among these objects; the dictionaries
  and lists the call writes to are the ones it allocated. In the run below the padding
  packet refers to the second input record (address 1) without changing it.
\<close>

theorem build_unified_packets_keeps_store:
  "take (length h) (snd (build_unified_packets_st float_mul self reference h)) = h \<and>
   length h \<le> length (snd (build_unified_packets_st float_mul self reference h)) \<and>
   (\<forall>a < length h. snd (build_unified_packets_st float_mul self reference h) ! a = h ! a)"
proof -
  obtain r h' where run: "build_unified_packets_st float_mul self reference h = (r, h')"
    by (cases "build_unified_packets_st float_mul self reference h")
  from framesD(1,2) [OF frames_build _ run, of "length h"]
  have "length h \<le> length h'" and t: "take (length h) h' = h" by simp_all
  moreover have "h' ! a = h ! a" if "a < length h" for a
    using nth_take [OF that, of h'] t by simp
  ultimately show ?thesis using run by simp
qed

theorem build_unified_packets_keeps_store_witness:
  "take 3 (snd (build_unified_packets_st (\<lambda>(x::rat) n. x * of_int n)
     \<lparr>st_timeserie = HRef 2, st_fake_electric = False, st_minutes_shift = Some 15\<rparr> ''abc123''
     [ODict [''tsISO8601'' \<mapsto> HDatetime (mk_datetime 2020 1 1 10 0 0), ''value'' \<mapsto> HFloat 5],
      ODict [''tsISO8601'' \<mapsto> HDatetime (mk_datetime 2020 1 1 10 15 0), ''value'' \<mapsto> HFloat 2],
      OList [HRef 0, HRef 1]])) =
     [ODict [''tsISO8601'' \<mapsto> HDatetime (mk_datetime 2020 1 1 10 0 0), ''value'' \<mapsto> HFloat 5],
      ODict [''tsISO8601'' \<mapsto> HDatetime (mk_datetime 2020 1 1 10 15 0), ''value'' \<mapsto> HFloat 2],
      OList [HRef 0, HRef 1]] \<and>
   fst (build_unified_packets_st (\<lambda>(x::rat) n. x * of_int n)
     \<lparr>st_timeserie = HRef 2, st_fake_electric = False, st_minutes_shift = Some 15\<rparr> ''abc123''
     [ODict [''tsISO8601'' \<mapsto> HDatetime (mk_datetime 2020 1 1 10 0 0), ''value'' \<mapsto> HFloat 5],
      ODict [''tsISO8601'' \<mapsto> HDatetime (mk_datetime 2020 1 1 10 15 0), ''value'' \<mapsto> HFloat 2],
      OList [HRef 0, HRef 1]]) = Inr (HRef 10) \<and>
   snd (build_unified_packets_st (\<lambda>(x::rat) n. x * of_int n)
     \<lparr>st_timeserie = HRef 2, st_fake_electric = False, st_minutes_shift = Some 15\<rparr> ''abc123''
     [ODict [''tsISO8601'' \<mapsto> HDatetime (mk_datetime 2020 1 1 10 0 0), ''value'' \<mapsto> HFloat 5],
      ODict [''tsISO8601'' \<mapsto> HDatetime (mk_datetime 2020 1 1 10 15 0), ''value'' \<mapsto> HFloat 2],
      OList [HRef 0, HRef 1]]) ! 10 = OList [HRef 11, HRef 13, HRef 15] \<and>
   (case snd (build_unified_packets_st (\<lambda>(x::rat) n. x * of_int n)
     \<lparr>st_timeserie = HRef 2, st_fake_electric = False, st_minutes_shift = Some 15\<rparr> ''abc123''
     [ODict [''tsISO8601'' \<mapsto> HDatetime (mk_datetime 2020 1 1 10 0 0), ''value'' \<mapsto> HFloat 5],
      ODict [''tsISO8601'' \<mapsto> HDatetime (mk_datetime 2020 1 1 10 15 0), ''value'' \<mapsto> HFloat 2],
      OList [HRef 0, HRef 1]]) ! 11 of
      ODict d \<Rightarrow> d ''value'' | OList xs \<Rightarrow> None) = Some (HRef 1)"
proof -
  let ?h = "[ODict [''tsISO8601'' \<mapsto> HDatetime (mk_datetime 2020 1 1 10 0 0),
                    ''value'' \<mapsto> HFloat (5::rat)],
             ODict [''tsISO8601'' \<mapsto> HDatetime (mk_datetime 2020 1 1 10 15 0),
                    ''value'' \<mapsto> HFloat 2],
             OList [HRef 0, HRef 1]]"
  let ?self = "\<lparr>st_timeserie = HRef 2, st_fake_electric = False, st_minutes_shift = Some 15\<rparr>
                 :: rat TimeserieProcessor_st"
  let ?run = "build_unified_packets_st (\<lambda>(x::rat) n. x * of_int n) ?self ''abc123'' ?h"
  have len: "length ?h = 3" by simp
  from build_unified_packets_keeps_store [of ?h "\<lambda>(x::rat) n. x * of_int n" ?self "''abc123''"]
  have "take (length ?h) (snd ?run) = ?h"
    by (elim conjE)
  then have kept: "take 3 (snd ?run) = ?h"
    unfolding len .
  have run: "fst ?run = Inr (HRef 10) \<and> snd ?run ! 10 = OList [HRef 11, HRef 13, HRef 15] \<and>
             (case snd ?run ! 11 of ODict d \<Rightarrow> d ''value'' | OList xs \<Rightarrow> None) = Some (HRef 1)"
    by (simp add: build_unified_packets_st_def u_prepend_padding_value_st_def
          u_build_unified_packets_st_def bind_st_def ret_def throw_def lift_def alloc_def
          load_def load_list_def load_dict_def subscript_def list_append_def dict_update_def
          dict_display_def hval_add_timedelta_def hval_strftime_def list_get_def
          timedelta_15 add_15_minutes nth_append del: One_nat_def)
  from kept run show ?thesis by (intro conjI) (elim conjE, assumption)+
qed

end
